theory Spec2Isabelle
  imports Complex_Main "HOL-Library.Sublist"
begin

section \<open>Paths: pathlib in its POSIX flavour\<close>

text \<open>
  A \<^verbatim>\<open>pathlib\<close> path is an anchor (on POSIX the root: empty, \<^verbatim>\<open>/\<close> or \<^verbatim>\<open>//\<close>) and the
  list of its components. \<^verbatim>\<open>Path(s)\<close> parses a string: runs of separators collapse, the
  components \<^verbatim>\<open>.\<close> and the empty one are dropped, \<^verbatim>\<open>..\<close> is kept. The Windows flavour
  (drives, backslash separators) is not modelled.
\<close>

datatype path = PurePath (anchor: string) (tail: "string list")

fun split_sep :: "string \<Rightarrow> string list" where
  "split_sep [] = [[]]"
| "split_sep (c # cs) =
     (if c = CHR ''/'' then [] # split_sep cs
      else (case split_sep cs of [] \<Rightarrow> [[c]] | w # ws \<Rightarrow> (c # w) # ws))"

definition splitroot :: "string \<Rightarrow> string \<times> string" where
  "splitroot p =
     (if take 1 p \<noteq> ''/'' then ([], p)
      else if take 1 (drop 1 p) \<noteq> ''/'' \<or> take 1 (drop 2 p) = ''/'' then (''/'', drop 1 p)
      else (take 2 p, drop 2 p))"

definition Path :: "string \<Rightarrow> path" where
  "Path s = (case splitroot s of (r, rel) \<Rightarrow>
     PurePath r (filter (\<lambda>x. x \<noteq> [] \<and> x \<noteq> ''.'') (split_sep rel)))"

fun join :: "string \<Rightarrow> string list \<Rightarrow> string" where
  "join sep [] = []"
| "join sep [x] = x"
| "join sep (x # y # ys) = x @ sep @ join sep (y # ys)"

definition str_path :: "path \<Rightarrow> string" where
  "str_path p = (if anchor p = [] \<and> tail p = [] then ''.'' else anchor p @ join ''/'' (tail p))"

definition is_absolute :: "path \<Rightarrow> bool" where
  "is_absolute p = (anchor p \<noteq> [])"

text \<open>The operator \<^verbatim>\<open>a / b\<close>: an absolute right operand replaces the left one.\<close>

definition joinpath :: "path \<Rightarrow> path \<Rightarrow> path" where
  "joinpath a b = (if is_absolute b then b else PurePath (anchor a) (tail a @ tail b))"

section \<open>Exceptions\<close>

text \<open>
  The exceptions of class \<^verbatim>\<open>Exception\<close> that the script meets, each with its message:
  \<^verbatim>\<open>FileNotFoundError\<close>, which \<^verbatim>\<open>main\<close> handles; any other \<^verbatim>\<open>OSError\<close>, with its error
  number; \<^verbatim>\<open>ValueError\<close>, which \<^verbatim>\<open>coerce_source\<close> handles; \<^verbatim>\<open>AttributeError\<close>, which
  \<^verbatim>\<open>hasattr\<close> swallows; and any other one, named by its class. Messages that the script
  never shows are abbreviated. Exceptions outside that class, such as
  \<^verbatim>\<open>KeyboardInterrupt\<close>, are not modelled.
\<close>

datatype errno = ENOENT | ENOTDIR | EBADF | ELOOP | EACCES | ENAMETOOLONG | Errno nat

datatype exn =
    FileNotFoundError string
  | OSError errno string
  | ValueError string
  | AttributeError string
  | OtherException string string

section \<open>The file system the script sees\<close>

text \<open>
  A snapshot of the file system: the working directory, the directory of the script
  (\<^verbatim>\<open>Path(__file__).parent\<close>), what \<^verbatim>\<open>os.stat\<close> gives for an absolute path, and the names in a
  directory in the order the operating system lists them. \<^verbatim>\<open>os.stat\<close> follows symbolic
  links; it returns whether the path is a regular file and its modification time, or it
  raises: \<^verbatim>\<open>FileNotFoundError\<close> for a missing path or a dangling link, another \<^verbatim>\<open>OSError\<close>
  for a path that cannot be read. A relative path is looked up from the working directory.
\<close>

datatype stat_result = StatResult (is_reg: bool) (st_mtime: real)

record filesystem =
  cwd :: path
  script_dir :: path
  os_stat :: "path \<Rightarrow> exn + stat_result"
  listdir :: "path \<Rightarrow> string list"

text \<open>\<^verbatim>\<open>p.stat()\<close>\<close>

definition stat :: "filesystem \<Rightarrow> path \<Rightarrow> exn + stat_result" where
  "stat fs p = os_stat fs (joinpath (cwd fs) p)"

text \<open>
  \<^verbatim>\<open>p.is_file()\<close> of pathlib up to Python 3.13: the error numbers of a path that does not
  exist are taken as the answer no, as is a \<^verbatim>\<open>ValueError\<close>; any other \<^verbatim>\<open>OSError\<close> is raised
  again.
\<close>

definition ignore_error :: "errno \<Rightarrow> bool" where
  "ignore_error n = (n \<in> set [ENOENT, ENOTDIR, EBADF, ELOOP])"

definition is_file :: "filesystem \<Rightarrow> path \<Rightarrow> exn + bool" where
  "is_file fs p =
     (case stat fs p of
        Inr st \<Rightarrow> Inr (is_reg st)
      | Inl (FileNotFoundError m) \<Rightarrow> Inr False
      | Inl (OSError n m) \<Rightarrow> if ignore_error n then Inr False else Inl (OSError n m)
      | Inl (ValueError m) \<Rightarrow> Inr False
      | Inl e \<Rightarrow> Inl e)"

definition endswith :: "string \<Rightarrow> string \<Rightarrow> bool" where
  "endswith s suf = (length suf \<le> length s \<and> drop (length s - length suf) s = suf)"

text \<open>
  \<^verbatim>\<open>d.glob("*.pt")\<close>: the entries of \<^verbatim>\<open>d\<close> whose name ends in \<^verbatim>\<open>.pt\<close>, as children of \<^verbatim>\<open>d\<close>,
  whatever their kind: regular files, directories, links.
\<close>

definition child :: "path \<Rightarrow> string \<Rightarrow> path" where
  "child d n = PurePath (anchor d) (tail d @ [n])"

definition glob_pt :: "filesystem \<Rightarrow> path \<Rightarrow> path list" where
  "glob_pt fs d = map (child d) (filter (\<lambda>n. endswith n ''.pt'') (listdir fs d))"

section \<open>Strings\<close>

text \<open>
  \<^verbatim>\<open>str.upper\<close> on the letters \<^verbatim>\<open>a\<close> to \<^verbatim>\<open>z\<close>. No character outside ASCII has an
  upper case made of the letters A, U, T and O, so the comparison with \<^verbatim>\<open>"AUTO"\<close> is
  decided by this mapping.
\<close>

definition upper_char :: "char \<Rightarrow> char" where
  "upper_char c =
     (case map_of (zip ''abcdefghijklmnopqrstuvwxyz'' ''ABCDEFGHIJKLMNOPQRSTUVWXYZ'') c of
        Some u \<Rightarrow> u
      | None \<Rightarrow> c)"

definition upper :: "string \<Rightarrow> string" where
  "upper s = map upper_char s"

definition msg_auto :: string where
  "msg_auto = ''AUTO could not find any .pt files next to the script''"

definition msg_tried :: "string \<Rightarrow> path list \<Rightarrow> string" where
  "msg_tried weights_spec candidates =
     ''Could not find weights file for spec '' @ [CHR 0x27] @ weights_spec @ [CHR 0x27]
       @ ''. Tried: '' @ join '', '' (map str_path candidates)"

section \<open>resolve_weights_path\<close>

text \<open>
  The function returns, with its result, the list of the file-system lookups it made, in
  the order it made them: an \<^verbatim>\<open>is_file\<close> test of a path, or the glob of a directory.
\<close>

datatype probe = IsFile path | GlobPt path

text \<open>
  The loop \<^verbatim>\<open>for c in candidates: if c.is_file(): return c\<close>. An exception of \<^verbatim>\<open>is_file\<close>
  ends it.
\<close>

fun first_file :: "filesystem \<Rightarrow> path list \<Rightarrow> probe list \<times> (exn + path option)" where
  "first_file fs [] = ([], Inr None)"
| "first_file fs (c # cs) =
     (case is_file fs c of
        Inl e \<Rightarrow> ([IsFile c], Inl e)
      | Inr b \<Rightarrow>
          if b then ([IsFile c], Inr (Some c))
          else (case first_file fs cs of (tr, r) \<Rightarrow> (IsFile c # tr, r)))"

text \<open>
  The sort keys \<^verbatim>\<open>p.stat().st_mtime\<close>, computed for the whole list, in order, before the
  sort; the first exception of \<^verbatim>\<open>stat\<close> ends the computation.
\<close>

fun sort_keys :: "filesystem \<Rightarrow> path list \<Rightarrow> exn + (path \<times> real) list" where
  "sort_keys fs [] = Inr []"
| "sort_keys fs (p # ps) =
     (case stat fs p of
        Inl e \<Rightarrow> Inl e
      | Inr st \<Rightarrow>
          (case sort_keys fs ps of
             Inl e \<Rightarrow> Inl e
           | Inr ks \<Rightarrow> Inr ((p, st_mtime st) # ks)))"

text \<open>
  \<^verbatim>\<open>sorted(xs, key=k, reverse=True)\<close>: a stable sort in descending order, which CPython
  computes by reversing the list, sorting it stably and reversing it again.
\<close>

definition sorted_reverse :: "('a \<Rightarrow> real) \<Rightarrow> 'a list \<Rightarrow> 'a list" where
  "sorted_reverse k xs = rev (sort_key k (rev xs))"

definition resolve_weights_path :: "filesystem \<Rightarrow> string \<Rightarrow> probe list \<times> (exn + path)" where
  "resolve_weights_path fs weights_spec =
     (let spec = Path weights_spec in
      if upper weights_spec = ''AUTO'' then
        ([GlobPt (script_dir fs)],
         case sort_keys fs (glob_pt fs (script_dir fs)) of
           Inl e \<Rightarrow> Inl e
         | Inr ks \<Rightarrow>
             (case sorted_reverse snd ks of
                (c, t) # _ \<Rightarrow> Inr c
              | [] \<Rightarrow> Inl (FileNotFoundError msg_auto)))
      else
        (let candidates =
               (if is_absolute spec then [spec] else [spec, joinpath (script_dir fs) spec]) in
         case first_file fs candidates of
           (tr, Inl e) \<Rightarrow> (tr, Inl e)
         | (tr, Inr (Some c)) \<Rightarrow> (tr, Inr c)
         | (tr, Inr None) \<Rightarrow> (tr, Inl (FileNotFoundError (msg_tried weights_spec candidates)))))"

section \<open>coerce_source\<close>

text \<open>
  \<^verbatim>\<open>int(s)\<close> on a string, for the characters below U+0100: white space around the
  literal is skipped, then comes an optional sign, then decimal digits, where single
  underscores may stand between two digits. Anything else raises \<^verbatim>\<open>ValueError\<close>, and so
  does a literal with more digits than the interpreter's limit
  (\<^verbatim>\<open>sys.get_int_max_str_digits()\<close>, where 0 means no limit).
\<close>

definition is_space :: "char \<Rightarrow> bool" where
  "is_space c =
     (c \<in> set [CHR 0x09, CHR 0x0A, CHR 0x0B, CHR 0x0C, CHR 0x0D, CHR 0x20, CHR 0x85, CHR 0xA0])"

definition digit_val :: "char \<Rightarrow> nat option" where
  "digit_val c = map_of (zip ''0123456789'' [0, 1, 2, 3, 4, 5, 6, 7, 8, 9]) c"

definition strip :: "string \<Rightarrow> string" where
  "strip s = rev (dropWhile is_space (rev (dropWhile is_space s)))"

text \<open>
  The digits of the literal, most significant first. The flag says that a digit must come
  next: at the start and after an underscore.
\<close>

fun scan_digits :: "bool \<Rightarrow> nat \<Rightarrow> string \<Rightarrow> nat option" where
  "scan_digits need acc [] = (if need then None else Some acc)"
| "scan_digits need acc (c # cs) =
     (if c = CHR ''_'' \<and> \<not> need then scan_digits True acc cs
      else (case digit_val c of
              Some d \<Rightarrow> scan_digits False (acc * 10 + d) cs
            | None \<Rightarrow> None))"

definition py_int :: "nat \<Rightarrow> string \<Rightarrow> exn + int" where
  "py_int max_str_digits s =
     (let t = strip s;
          neg = (take 1 t = ''-'');
          body = (if take 1 t = ''-'' \<or> take 1 t = ''+'' then drop 1 t else t)
      in case scan_digits True 0 body of
           None \<Rightarrow> Inl (ValueError ''invalid literal for int() with base 10'')
         | Some n \<Rightarrow>
             if 0 < max_str_digits \<and> max_str_digits < length (filter (\<lambda>c. c \<noteq> CHR ''_'') body)
             then Inl (ValueError ''Exceeds the limit for integer string conversion'')
             else Inr (if neg then - int n else int n))"

datatype source = SrcInt int | SrcStr string

text \<open>\<^verbatim>\<open>try: return int(src)\<close> \<^verbatim>\<open>except ValueError: return src\<close>; another exception would propagate.\<close>

definition coerce_source :: "nat \<Rightarrow> string \<Rightarrow> exn + source" where
  "coerce_source max_str_digits src =
     (case py_int max_str_digits src of
        Inr n \<Rightarrow> Inr (SrcInt n)
      | Inl (ValueError m) \<Rightarrow> Inr (SrcStr src)
      | Inl e \<Rightarrow> Inl e)"

section \<open>The detection library, as the script uses it\<close>

text \<open>\<^verbatim>\<open>str(n)\<close> of an integer.\<close>

fun str_nat :: "nat \<Rightarrow> string" where
  "str_nat n = (if n < 10 then [''0123456789'' ! n] else str_nat (n div 10) @ [''0123456789'' ! (n mod 10)])"

declare str_nat.simps [simp del]

definition str_int :: "int \<Rightarrow> string" where
  "str_int i = (if i < 0 then ''-'' @ str_nat (nat (- i)) else str_nat (nat i))"

definition str_source :: "source \<Rightarrow> string" where
  "str_source s = (case s of SrcInt n \<Rightarrow> str_int n | SrcStr t \<Rightarrow> t)"

text \<open>
  A detected box: what \<^verbatim>\<open>int(b.cls[0])\<close> and \<^verbatim>\<open>float(b.conf[0])\<close> give. \<open>None\<close> stands
  for an attribute that is missing or \<^verbatim>\<open>None\<close>, \<open>Inl\<close> for a read that raises.
\<close>

record box =
  box_cls :: "(exn + int) option"
  box_conf :: "(exn + real) option"

text \<open>
  A result: what reading \<^verbatim>\<open>first.boxes\<close> and its length gives, an exception, \<^verbatim>\<open>None\<close> or the
  boxes. The value of \<^verbatim>\<open>predict\<close> is a list of results or something that is not a list.
\<close>

datatype result = Result (boxes: "exn + box list option")

datatype results = ResultList "result list" | NotAList

record kwargs =
  kw_source :: source
  kw_conf :: real
  kw_imgsz :: int
  kw_device :: "string option"
  kw_show :: bool
  kw_save :: bool
  kw_stream :: bool
  kw_verbose :: bool

text \<open>
  The model object: what reading its attribute \<^verbatim>\<open>names\<close> gives, and what \<^verbatim>\<open>predict\<close> does
  with the keyword arguments. Reading \<^verbatim>\<open>names\<close> raises, or gives a dictionary (\<open>Some\<close>) or
  a value that is not one (\<open>None\<close>); it gives the same each time it is read.
\<close>

record model =
  names :: "exn + (int \<rightharpoonup> string) option"
  predict :: "kwargs \<Rightarrow> exn + results"

section \<open>main\<close>

record args =
  args_weights :: "string option"
  args_source :: string
  args_conf :: real
  args_imgsz :: int
  args_device :: string
  args_show :: bool
  args_save :: bool
  args_check :: bool

text \<open>\<^verbatim>\<open>parse_args()\<close> returns the namespace, or argparse ends the process itself.\<close>

datatype parsed = Parsed args | ArgparseExit int

text \<open>
  What a run depends on: the file system, the outcome of argument parsing, the constructor
  \<^verbatim>\<open>YOLO\<close> of the library and the interpreter's limit on integer literals.
\<close>

record world =
  files :: filesystem
  parse_args :: parsed
  YOLO :: "string \<Rightarrow> exn + model"
  int_max_str_digits :: nat

text \<open>
  The steps of a run, in the order they happen. \<open>PrintDetection k label conf\<close> is the line
  \<^verbatim>\<open>#k: label @ conf\<close> of the summary.
\<close>

datatype event =
    ParseArgs
  | Resolve string
  | Print string
  | PrintDetection nat string real
  | Construct string
  | Predict kwargs

text \<open>
  How the process ends: \<^verbatim>\<open>main\<close> returns, \<^verbatim>\<open>sys.exit\<close> is called, or an exception leaves
  \<^verbatim>\<open>main\<close>, which the interpreter reports with a traceback and status 1.
\<close>

datatype outcome = Returned | SysExit int | Uncaught exn

fun exit_status :: "outcome \<Rightarrow> int" where
  "exit_status Returned = 0"
| "exit_status (SysExit n) = n"
| "exit_status (Uncaught e) = 1"

definition DEFAULT_WEIGHTS :: string where
  "DEFAULT_WEIGHTS = ''d:'' @ [CHR 0x5C, CHR 0x5C] @ ''AI-YOLO'' @ [CHR 0x5C, CHR 0x5C] @ ''best.pt''"

definition msg_hint :: string where
  "msg_hint = ''Hint: Set DEFAULT_WEIGHTS at the top of yolo.py to your .pt file,'' @ [CHR 0x0A]
     @ ''      or pass --weights <path-to-weights.pt> when running.''"

definition msg_check :: string where
  "msg_check = ''Weights file resolved successfully. Exiting due to --check.''"

definition msg_done :: string where
  "msg_done = ''Done. Example detections (first frame):''"

definition msg_no_detections :: string where
  "msg_no_detections = ''  No detections in the first result.''"

definition msg_unavailable :: string where
  "msg_unavailable = ''  Parsed results summary unavailable (non-critical).''"

text \<open>\<^verbatim>\<open>args.weights if args.weights else DEFAULT_WEIGHTS\<close>\<close>

definition choose_weights :: "args \<Rightarrow> string" where
  "choose_weights a =
     (case args_weights a of
        Some w \<Rightarrow> if w \<noteq> [] then w else DEFAULT_WEIGHTS
      | None \<Rightarrow> DEFAULT_WEIGHTS)"

text \<open>
  The loop over the boxes. It returns the lines printed and the exception that stopped
  it, if one did.
\<close>

fun print_boxes :: "(int \<rightharpoonup> string) option \<Rightarrow> nat \<Rightarrow> box list \<Rightarrow> event list \<times> exn option" where
  "print_boxes nm i [] = ([], None)"
| "print_boxes nm i (b # bs) =
     (case (case box_cls b of None \<Rightarrow> Inr (- 1) | Some r \<Rightarrow> r) of
        Inl e \<Rightarrow> ([], Some e)
      | Inr cls_id \<Rightarrow>
          (case (case box_conf b of None \<Rightarrow> Inr 0 | Some r \<Rightarrow> r) of
             Inl e \<Rightarrow> ([], Some e)
           | Inr conf \<Rightarrow>
               (let label = (case nm of
                               Some d \<Rightarrow> (case d cls_id of Some l \<Rightarrow> l | None \<Rightarrow> str_int cls_id)
                             | None \<Rightarrow> str_int cls_id)
                in case print_boxes nm (i + 1) bs of
                     (tr, r) \<Rightarrow> (PrintDetection (i + 1) label conf # tr, r))))"

text \<open>The body of the \<^verbatim>\<open>try\<close> block.\<close>

definition summary_body :: "(int \<rightharpoonup> string) option \<Rightarrow> result \<Rightarrow> event list \<times> exn option" where
  "summary_body nm first =
     (case boxes first of
        Inl e \<Rightarrow> ([], Some e)
      | Inr None \<Rightarrow> ([Print msg_no_detections], None)
      | Inr (Some bs) \<Rightarrow>
          if length bs > 0 then print_boxes nm 0 bs else ([Print msg_no_detections], None))"

text \<open>
  \<^verbatim>\<open>model.names if hasattr(model, "names") else None\<close>, read before the \<^verbatim>\<open>try\<close> block:
  \<^verbatim>\<open>hasattr\<close> takes an \<^verbatim>\<open>AttributeError\<close> as the answer no, and lets any other exception of
  the attribute through.
\<close>

definition read_names :: "model \<Rightarrow> exn + (int \<rightharpoonup> string) option" where
  "read_names m =
     (case names m of
        Inl (AttributeError s) \<Rightarrow> Inr None
      | Inl e \<Rightarrow> Inl e
      | Inr d \<Rightarrow> Inr d)"

text \<open>
  The summary: nothing unless the results are a list that is not empty. The names are
  read first; then, after the heading, comes the \<^verbatim>\<open>try\<close> block, whose handler
  \<^verbatim>\<open>except Exception\<close> prints the fallback line. The result is the lines printed and the
  exception that leaves the summary, if one does.
\<close>

definition print_summary :: "model \<Rightarrow> results \<Rightarrow> event list \<times> exn option" where
  "print_summary m rs =
     (case rs of
        NotAList \<Rightarrow> ([], None)
      | ResultList [] \<Rightarrow> ([], None)
      | ResultList (first # _) \<Rightarrow>
          (case read_names m of
             Inl e \<Rightarrow> ([], Some e)
           | Inr nm \<Rightarrow>
               (Print msg_done #
                (case summary_body nm first of
                   (tr, None) \<Rightarrow> tr
                 | (tr, Some e) \<Rightarrow> tr @ [Print msg_unavailable]), None)))"

definition predict_kwargs :: "args \<Rightarrow> source \<Rightarrow> kwargs" where
  "predict_kwargs a src =
     \<lparr>kw_source = src, kw_conf = args_conf a, kw_imgsz = args_imgsz a,
      kw_device = (if args_device a \<noteq> [] then Some (args_device a) else None),
      kw_show = args_show a, kw_save = args_save a, kw_stream = False, kw_verbose = True\<rparr>"

text \<open>The part of \<^verbatim>\<open>main\<close> after the weights are resolved and \<^verbatim>\<open>--check\<close> is not given.\<close>

definition run_model :: "world \<Rightarrow> args \<Rightarrow> path \<Rightarrow> event list \<times> outcome" where
  "run_model w a weights_path =
     (case YOLO w (str_path weights_path) of
        Inl e \<Rightarrow> ([Construct (str_path weights_path)], Uncaught e)
      | Inr m \<Rightarrow>
          (case coerce_source (int_max_str_digits w) (args_source a) of
             Inl e \<Rightarrow> ([Construct (str_path weights_path)], Uncaught e)
           | Inr src \<Rightarrow>
               (let tr = [Construct (str_path weights_path),
                          Print (''Starting inference on source: '' @ str_source src),
                          Predict (predict_kwargs a src)]
                in case predict m (predict_kwargs a src) of
                     Inl e \<Rightarrow> (tr, Uncaught e)
                   | Inr rs \<Rightarrow>
                       (case print_summary m rs of
                          (tr', None) \<Rightarrow> (tr @ tr', Returned)
                        | (tr', Some e) \<Rightarrow> (tr @ tr', Uncaught e)))))"

text \<open>
  \<^verbatim>\<open>main\<close>. Only \<^verbatim>\<open>FileNotFoundError\<close> from the resolution is handled; another exception
  leaves \<^verbatim>\<open>main\<close>.
\<close>

definition main :: "world \<Rightarrow> event list \<times> outcome" where
  "main w =
     (case parse_args w of
        ArgparseExit n \<Rightarrow> ([ParseArgs], SysExit n)
      | Parsed a \<Rightarrow>
          (let weights_spec = choose_weights a in
           case snd (resolve_weights_path (files w) weights_spec) of
             Inl (FileNotFoundError m) \<Rightarrow>
               ([ParseArgs, Resolve weights_spec, Print m, Print msg_hint], SysExit 1)
           | Inl e \<Rightarrow> ([ParseArgs, Resolve weights_spec], Uncaught e)
           | Inr weights_path \<Rightarrow>
               (let tr = [ParseArgs, Resolve weights_spec,
                          Print (''Using weights: '' @ str_path weights_path)]
                in if args_check a then (tr @ [Print msg_check], Returned)
                   else (case run_model w a weights_path of
                           (tr', out) \<Rightarrow> (tr @ tr', out)))))"

text \<open>
  When \<^verbatim>\<open>predict\<close> returns, the run ends as the summary does: it returns, or the exception
  that leaves the summary leaves \<^verbatim>\<open>main\<close>.
\<close>

definition summary_outcome :: "exn option \<Rightarrow> outcome" where
  "summary_outcome r = (case r of None \<Rightarrow> Returned | Some e \<Rightarrow> Uncaught e)"

section \<open>Example inputs\<close>

text \<open>
  A file system with working directory \<^verbatim>\<open>/work\<close> and the script in \<^verbatim>\<open>/app\<close>. The script
  directory holds three weights files, of which \<^verbatim>\<open>b.pt\<close> and \<^verbatim>\<open>c.pt\<close> share the latest
  modification time; the working directory holds \<^verbatim>\<open>a.pt\<close> and a file named \<^verbatim>\<open>AUTO\<close>.
\<close>

definition example_stat :: "path \<Rightarrow> exn + stat_result" where
  "example_stat p =
     (if p = Path ''/app/a.pt'' then Inr (StatResult True 5)
      else if p = Path ''/app/b.pt'' then Inr (StatResult True 7)
      else if p = Path ''/app/c.pt'' then Inr (StatResult True 7)
      else if p = Path ''/work/a.pt'' then Inr (StatResult True 3)
      else if p = Path ''/work/AUTO'' then Inr (StatResult True 1)
      else if p = Path ''/app'' \<or> p = Path ''/work'' then Inr (StatResult False 8)
      else Inl (FileNotFoundError ''[Errno 2] No such file or directory''))"

definition example_fs :: filesystem where
  "example_fs =
     \<lparr>cwd = Path ''/work'', script_dir = Path ''/app'', os_stat = example_stat,
      listdir = (\<lambda>d. if d = Path ''/app'' then [''a.pt'', ''notes.txt'', ''b.pt'', ''c.pt''] else [])\<rparr>"

text \<open>
  Variations. The working directory cannot be searched, so that \<^verbatim>\<open>stat\<close> of a path in it
  raises \<^verbatim>\<open>PermissionError\<close>. The script directory also holds a dangling symbolic link
  \<^verbatim>\<open>z.pt\<close>. The script directory also holds a directory \<^verbatim>\<open>dir.pt\<close>, newer than the files.
\<close>

definition fs_unreadable_cwd :: filesystem where
  "fs_unreadable_cwd =
     example_fs\<lparr>os_stat := (\<lambda>p. if anchor p = ''/'' \<and> take 1 (tail p) = [''work''] \<and> length (tail p) > 1
                               then Inl (OSError EACCES ''[Errno 13] Permission denied'')
                               else example_stat p)\<rparr>"



text \<open>
  A run on the example file system with \<^verbatim>\<open>--weights a.pt\<close> and the default source \<^verbatim>\<open>0\<close>. The
  model returns one result with three boxes: one of class 1, one without class and
  confidence, and one whose class cannot be read.
\<close>

definition example_args :: args where
  "example_args =
     \<lparr>args_weights = Some ''a.pt'', args_source = ''0'', args_conf = 0.25, args_imgsz = 640,
      args_device = [], args_show = False, args_save = False, args_check = False\<rparr>"

definition example_boxes :: "box list" where
  "example_boxes =
     [\<lparr>box_cls = Some (Inr 1), box_conf = Some (Inr 0.5)\<rparr>,
      \<lparr>box_cls = None, box_conf = None\<rparr>,
      \<lparr>box_cls = Some (Inl (OtherException ''IndexError'' ''index 0 is out of bounds'')),
       box_conf = Some (Inr 0.9)\<rparr>]"

definition example_model :: model where
  "example_model =
     \<lparr>names = Inr (Some [0 \<mapsto> ''fire'', 1 \<mapsto> ''smoke'']),
      predict = (\<lambda>kw. Inr (ResultList [Result (Inr (Some example_boxes))]))\<rparr>"

definition example_world :: world where
  "example_world =
     \<lparr>files = example_fs, parse_args = Parsed example_args,
      YOLO = (\<lambda>s. Inr example_model), int_max_str_digits = 4300\<rparr>"

text \<open>
  Variations: the constructor raises, \<^verbatim>\<open>predict\<close> raises, reading \<^verbatim>\<open>names\<close> raises, the
  weights are missing, \<^verbatim>\<open>--check\<close> is given.
\<close>

definition world_constructor_fails :: world where
  "world_constructor_fails =
     example_world\<lparr>YOLO := (\<lambda>s. Inl (OtherException ''RuntimeError'' ''invalid weights file''))\<rparr>"

definition world_predict_fails :: world where
  "world_predict_fails =
     example_world\<lparr>YOLO := (\<lambda>s. Inr (example_model
        \<lparr>predict := (\<lambda>kw. Inl (OtherException ''ConnectionError'' ''cannot open camera''))\<rparr>))\<rparr>"

definition world_names_fails :: world where
  "world_names_fails =
     example_world\<lparr>YOLO := (\<lambda>s. Inr (example_model
        \<lparr>names := Inl (OtherException ''KeyError'' ''names'')\<rparr>))\<rparr>"

definition world_missing_weights :: world where
  "world_missing_weights =
     example_world\<lparr>parse_args := Parsed (example_args\<lparr>args_weights := Some ''/missing.pt''\<rparr>)\<rparr>"

definition world_check :: world where
  "world_check = example_world\<lparr>parse_args := Parsed (example_args\<lparr>args_check := True\<rparr>)\<rparr>"

section \<open>The steps of a run\<close>

text \<open>The events of a run that are not printed lines.\<close>

definition steps :: "event list \<Rightarrow> event list" where
  "steps tr = filter (\<lambda>e. case e of Print s \<Rightarrow> False | PrintDetection k l c \<Rightarrow> False | _ \<Rightarrow> True) tr"

section \<open>The order the docstring lists\<close>

text \<open>
  The docstring of \<^verbatim>\<open>resolve_weights_path\<close> lists the search for the newest file last,
  after the path lookups. A list of lookups follows that order when it does not begin with
  the search.
\<close>

fun search_only_after_lookup :: "probe list \<Rightarrow> bool" where
  "search_only_after_lookup [] = True"
| "search_only_after_lookup (IsFile p # tr) = True"
| "search_only_after_lookup (GlobPt d # tr) = False"

section \<open>Properties of resolve_weights_path\<close>








text \<open>A path that \<^verbatim>\<open>is_file\<close> accepts is one whose \<^verbatim>\<open>stat\<close> succeeds.\<close>

lemma is_file_True: "is_file fs p = Inr True \<Longrightarrow> \<exists>t. stat fs p = Inr (StatResult True t)"
  by (cases "stat fs p")
     (auto simp: is_file_def split: exn.splits if_splits, metis stat_result.collapse)

lemma upper_Cons: "upper (c # cs) = upper_char c # upper cs"
  by (simp add: upper_def)

lemma upper_AUTO: "upper ''AUTO'' = ''AUTO''"
  by (simp add: upper_def upper_char_def)

lemma anchor_Path_slash: "anchor (Path w) \<noteq> [] \<Longrightarrow> \<exists>cs. w = CHR ''/'' # cs"
  by (cases w) (auto simp: Path_def splitroot_def split: if_splits prod.splits)

text \<open>An absolute path begins with a separator, so it is never the sentinel.\<close>

lemma absolute_not_sentinel: "is_absolute (Path w) \<Longrightarrow> upper w \<noteq> ''AUTO''"
proof -
  assume "is_absolute (Path w)"
  then obtain cs where "w = CHR ''/'' # cs"
    using anchor_Path_slash by (auto simp: is_absolute_def)
  then show ?thesis by (simp add: upper_Cons upper_char_def)
qed

lemma joinpath_absolute: "is_absolute b \<Longrightarrow> joinpath a b = b"
  by (simp add: joinpath_def)

lemma resolve_sentinel:
  "upper w = ''AUTO'' \<Longrightarrow> resolve_weights_path fs w =
     ([GlobPt (script_dir fs)],
      case sort_keys fs (glob_pt fs (script_dir fs)) of
        Inl e \<Rightarrow> Inl e
      | Inr ks \<Rightarrow>
          (case sorted_reverse snd ks of
             (c, t) # _ \<Rightarrow> Inr c
           | [] \<Rightarrow> Inl (FileNotFoundError msg_auto)))"
  by (simp add: resolve_weights_path_def Let_def)

lemma resolve_absolute:
  "is_absolute (Path w) \<Longrightarrow> resolve_weights_path fs w =
     (case is_file fs (Path w) of
        Inl e \<Rightarrow> ([IsFile (Path w)], Inl e)
      | Inr b \<Rightarrow>
          if b then ([IsFile (Path w)], Inr (Path w))
          else ([IsFile (Path w)], Inl (FileNotFoundError (msg_tried w [Path w]))))"
  using absolute_not_sentinel [of w]
  by (simp add: resolve_weights_path_def Let_def split: sum.splits)

lemma resolve_relative:
  assumes "upper w \<noteq> ''AUTO''" and "\<not> is_absolute (Path w)"
  shows "resolve_weights_path fs w =
     (case is_file fs (Path w) of
        Inl e \<Rightarrow> ([IsFile (Path w)], Inl e)
      | Inr b \<Rightarrow>
          if b then ([IsFile (Path w)], Inr (Path w))
          else (case is_file fs (joinpath (script_dir fs) (Path w)) of
                  Inl e \<Rightarrow> ([IsFile (Path w), IsFile (joinpath (script_dir fs) (Path w))], Inl e)
                | Inr b' \<Rightarrow>
                    if b' then ([IsFile (Path w), IsFile (joinpath (script_dir fs) (Path w))],
                                Inr (joinpath (script_dir fs) (Path w)))
                    else ([IsFile (Path w), IsFile (joinpath (script_dir fs) (Path w))],
                          Inl (FileNotFoundError
                                 (msg_tried w [Path w, joinpath (script_dir fs) (Path w)])))))"
  using assms by (simp add: resolve_weights_path_def Let_def split: sum.splits)

lemmas example_path_defs = joinpath_def is_absolute_def Path_def splitroot_def child_def
lemmas example_fs_defs = is_file_def stat_def example_fs_def example_stat_def ignore_error_def

text \<open>
  Claim C1, as stated, fails: when the lookup from the working directory raises, the
  exception leaves the function, and the existing file under the script's directory is
  not returned.
\<close>

theorem unreadable_cwd_lookup_raises:
  "upper ''b.pt'' \<noteq> ''AUTO'' \<and> \<not> is_absolute (Path ''b.pt'')
   \<and> is_file fs_unreadable_cwd (joinpath (script_dir fs_unreadable_cwd) (Path ''b.pt'')) = Inr True
   \<and> resolve_weights_path fs_unreadable_cwd ''b.pt''
       = ([IsFile (Path ''b.pt'')], Inl (OSError EACCES ''[Errno 13] Permission denied''))"
proof -
  have a: "upper ''b.pt'' \<noteq> ''AUTO''"
    by (simp add: upper_def upper_char_def)
  have b: "\<not> is_absolute (Path ''b.pt'')"
    by (simp add: example_path_defs)
  have c: "is_file fs_unreadable_cwd (joinpath (script_dir fs_unreadable_cwd) (Path ''b.pt'')) = Inr True"
    by (simp add: fs_unreadable_cwd_def example_fs_defs example_path_defs)
  have d: "is_file fs_unreadable_cwd (Path ''b.pt'') = Inl (OSError EACCES ''[Errno 13] Permission denied'')"
    by (simp add: fs_unreadable_cwd_def example_fs_defs example_path_defs)
  have "resolve_weights_path fs_unreadable_cwd ''b.pt''
       = ([IsFile (Path ''b.pt'')], Inl (OSError EACCES ''[Errno 13] Permission denied''))"
    by (simp add: resolve_relative [OF a b] d)
  then show ?thesis
    using a b c by blast
qed

text \<open>
  Claim C1, amended. For a weights spec that is relative and is not the sentinel, the path as
  given, which the operating system resolves from the working directory, is tested first
  and the path under the script's directory second. The result is the first of the two
  that is an existing file, provided no test before it raises, and a \<^verbatim>\<open>FileNotFoundError\<close>
  naming both when neither is. An exception raised by a test leaves the function and ends
  the search.
\<close>

theorem resolve_relative_cwd_first:
  assumes "upper w \<noteq> ''AUTO''" and "\<not> is_absolute (Path w)"
  shows "resolve_weights_path fs w =
     (case is_file fs (Path w) of
        Inl e \<Rightarrow> ([IsFile (Path w)], Inl e)
      | Inr b \<Rightarrow>
          if b then ([IsFile (Path w)], Inr (Path w))
          else (case is_file fs (joinpath (script_dir fs) (Path w)) of
                  Inl e \<Rightarrow> ([IsFile (Path w), IsFile (joinpath (script_dir fs) (Path w))], Inl e)
                | Inr b' \<Rightarrow>
                    if b' then ([IsFile (Path w), IsFile (joinpath (script_dir fs) (Path w))],
                                Inr (joinpath (script_dir fs) (Path w)))
                    else ([IsFile (Path w), IsFile (joinpath (script_dir fs) (Path w))],
                          Inl (FileNotFoundError
                                 (msg_tried w [Path w, joinpath (script_dir fs) (Path w)])))))
     \<and> stat fs (Path w) = os_stat fs (PurePath (anchor (cwd fs)) (tail (cwd fs) @ tail (Path w)))"
proof -
  have "stat fs (Path w) = os_stat fs (PurePath (anchor (cwd fs)) (tail (cwd fs) @ tail (Path w)))"
    using assms(2) by (simp add: stat_def joinpath_def)
  then show ?thesis
    using resolve_relative [OF assms] by simp
qed

text \<open>
  Witness for C1: \<^verbatim>\<open>a.pt\<close> exists in both directories and the working-directory one is
  returned; \<^verbatim>\<open>b.pt\<close> exists only next to the script and is found there second.
\<close>

theorem resolve_relative_cwd_first_witness:
  "upper ''a.pt'' \<noteq> ''AUTO'' \<and> \<not> is_absolute (Path ''a.pt'')
   \<and> resolve_weights_path example_fs ''a.pt'' = ([IsFile (Path ''a.pt'')], Inr (Path ''a.pt''))
   \<and> resolve_weights_path example_fs ''b.pt''
       = ([IsFile (Path ''b.pt''), IsFile (Path ''/app/b.pt'')], Inr (Path ''/app/b.pt''))"
proof -
  have a: "upper ''a.pt'' \<noteq> ''AUTO''" and b: "upper ''b.pt'' \<noteq> ''AUTO''"
    by (simp_all add: upper_def upper_char_def)
  have c: "\<not> is_absolute (Path ''a.pt'')" and d: "\<not> is_absolute (Path ''b.pt'')"
    by (simp_all add: example_path_defs)
  have fa: "is_file example_fs (Path ''a.pt'') = Inr True"
    and fb: "is_file example_fs (Path ''b.pt'') = Inr False"
    and fc: "is_file example_fs (joinpath (script_dir example_fs) (Path ''b.pt'')) = Inr True"
    and j: "joinpath (script_dir example_fs) (Path ''b.pt'') = Path ''/app/b.pt''"
    by (simp_all add: example_fs_defs example_path_defs)
  have 1: "resolve_weights_path example_fs ''a.pt'' = ([IsFile (Path ''a.pt'')], Inr (Path ''a.pt''))"
    using resolve_relative_cwd_first [OF a c, of example_fs, THEN conjunct1] by (simp add: fa)
  have 2: "resolve_weights_path example_fs ''b.pt''
       = ([IsFile (Path ''b.pt''), IsFile (Path ''/app/b.pt'')], Inr (Path ''/app/b.pt''))"
    using resolve_relative_cwd_first [OF b d, of example_fs, THEN conjunct1] fc
    by (simp add: fb j)
  show ?thesis
    using a c 1 2 by blast
qed

text \<open>
  Claim C3, as stated, fails: the sentinel is tested before anything else. With a file
  named \<^verbatim>\<open>AUTO\<close> in the working directory, which a lookup relative to the working directory
  would find, the only step taken for the spec \<^verbatim>\<open>AUTO\<close> is the search, and the newest
  weights file is returned.
\<close>

theorem sentinel_search_without_lookup:
  "is_file example_fs (Path ''AUTO'') = Inr True
   \<and> resolve_weights_path example_fs ''AUTO'' = ([GlobPt (Path ''/app'')], Inr (Path ''/app/b.pt''))
   \<and> \<not> search_only_after_lookup (fst (resolve_weights_path example_fs ''AUTO''))"
proof -
  have f: "is_file example_fs (Path ''AUTO'') = Inr True"
    by (simp add: example_fs_defs example_path_defs)
  have g: "glob_pt example_fs (script_dir example_fs)
             = [Path ''/app/a.pt'', Path ''/app/b.pt'', Path ''/app/c.pt'']"
    by (simp add: glob_pt_def endswith_def example_fs_def example_path_defs)
  have k: "stat example_fs (Path ''/app/a.pt'') = Inr (StatResult True 5)"
    "stat example_fs (Path ''/app/b.pt'') = Inr (StatResult True 7)"
    "stat example_fs (Path ''/app/c.pt'') = Inr (StatResult True 7)"
    by (simp_all add: stat_def example_fs_def example_stat_def example_path_defs)
  have sd: "script_dir example_fs = Path ''/app''"
    by (simp add: example_fs_def)
  have r: "resolve_weights_path example_fs ''AUTO'' = ([GlobPt (Path ''/app'')], Inr (Path ''/app/b.pt''))"
    by (simp add: resolve_sentinel upper_AUTO g k sorted_reverse_def) (simp add: sd)
  show ?thesis
    using f by (simp add: r)
qed

text \<open>
  Claim C3, amended. The sentinel is tested first: for the sentinel the search for the newest
  file is the only step. Otherwise an absolute spec is looked up alone, and a relative spec
  is looked up from the working directory and then, if that is not a file, under the
  script's directory.
\<close>

theorem resolve_lookup_order:
  "fst (resolve_weights_path fs w) =
     (if upper w = ''AUTO'' then [GlobPt (script_dir fs)]
      else if is_absolute (Path w) then [IsFile (Path w)]
      else if is_file fs (Path w) = Inr False
      then [IsFile (Path w), IsFile (joinpath (script_dir fs) (Path w))]
      else [IsFile (Path w)])"
proof (cases "upper w = ''AUTO''")
  case True
  then show ?thesis by (simp add: resolve_sentinel)
next
  case False
  show ?thesis
  proof (cases "is_absolute (Path w)")
    case True
    then show ?thesis
      using False by (simp add: resolve_absolute split: sum.splits)
  next
    case abs: False
    show ?thesis
      using False abs by (simp add: resolve_relative [OF False abs] split: sum.splits)
  qed
qed

text \<open>
  Claim C4. An absolute spec that is an existing file is returned as it is, after a single
  lookup of that very path: no path under the script's directory is tested.
\<close>

theorem resolve_absolute_existing:
  assumes "is_absolute (Path w)" and "is_file fs (Path w) = Inr True"
  shows "resolve_weights_path fs w = ([IsFile (Path w)], Inr (Path w))
     \<and> (\<exists>t. os_stat fs (Path w) = Inr (StatResult True t))
     \<and> (\<forall>p. IsFile p \<in> set (fst (resolve_weights_path fs w)) \<longrightarrow> p = Path w)"
proof -
  have "\<exists>t. os_stat fs (Path w) = Inr (StatResult True t)"
    using is_file_True [OF assms(2)] assms(1) by (simp add: stat_def joinpath_absolute)
  then show ?thesis
    using assms by (simp add: resolve_absolute)
qed

text \<open>Witness for C4: the absolute path \<^verbatim>\<open>/app/b.pt\<close> of the example.\<close>

theorem resolve_absolute_existing_witness:
  "is_absolute (Path ''/app/b.pt'') \<and> is_file example_fs (Path ''/app/b.pt'') = Inr True
   \<and> resolve_weights_path example_fs ''/app/b.pt''
       = ([IsFile (Path ''/app/b.pt'')], Inr (Path ''/app/b.pt''))
   \<and> Path ''/app/b.pt'' = PurePath ''/'' [''app'', ''b.pt'']"
proof -
  have a: "is_absolute (Path ''/app/b.pt'')"
    by (simp add: example_path_defs)
  have f: "is_file example_fs (Path ''/app/b.pt'') = Inr True"
    by (simp add: example_fs_defs example_path_defs)
  have r: "resolve_weights_path example_fs ''/app/b.pt''
             = ([IsFile (Path ''/app/b.pt'')], Inr (Path ''/app/b.pt''))"
    using resolve_absolute_existing [OF a f] by (rule conjunct1)
  have p: "Path ''/app/b.pt'' = PurePath ''/'' [''app'', ''b.pt'']"
    by (simp add: Path_def splitroot_def)
  show ?thesis
    using a f r p by blast
qed

text \<open>
  Claim C10. Every spelling whose upper case is \<^verbatim>\<open>AUTO\<close> behaves as \<^verbatim>\<open>AUTO\<close> itself: the
  search for the newest file is the only step, and no path is tested with \<^verbatim>\<open>is_file\<close>.
\<close>

theorem resolve_sentinel_any_case:
  assumes "upper w = ''AUTO''"
  shows "resolve_weights_path fs w = resolve_weights_path fs ''AUTO''
     \<and> fst (resolve_weights_path fs w) = [GlobPt (script_dir fs)]
     \<and> (\<forall>p. IsFile p \<notin> set (fst (resolve_weights_path fs w)))"
  using assms by (simp add: resolve_sentinel upper_AUTO)

text \<open>Witness for C10: the spellings \<^verbatim>\<open>auto\<close> and \<^verbatim>\<open>Auto\<close>.\<close>

theorem resolve_sentinel_any_case_witness:
  "upper ''auto'' = ''AUTO'' \<and> upper ''Auto'' = ''AUTO''
   \<and> resolve_weights_path example_fs ''auto'' = resolve_weights_path example_fs ''AUTO''
   \<and> fst (resolve_weights_path example_fs ''Auto'') = [GlobPt (Path ''/app'')]"
proof -
  have a: "upper ''auto'' = ''AUTO''" and b: "upper ''Auto'' = ''AUTO''"
    by (simp_all add: upper_def upper_char_def)
  have sd: "script_dir example_fs = Path ''/app''"
    by (simp add: example_fs_def)
  have 1: "resolve_weights_path example_fs ''auto'' = resolve_weights_path example_fs ''AUTO''"
    using resolve_sentinel_any_case [OF a, of example_fs] by (rule conjunct1)
  have 2: "fst (resolve_weights_path example_fs ''Auto'') = [GlobPt (Path ''/app'')]"
    using resolve_sentinel_any_case [OF b, of example_fs, THEN conjunct2, THEN conjunct1]
    by (simp only: sd)
  show ?thesis
    using a b 1 2 by blast
qed






section \<open>Properties of coerce_source\<close>

text \<open>
  \<^verbatim>\<open>int\<close> of a string raises nothing but \<^verbatim>\<open>ValueError\<close>, so \<^verbatim>\<open>coerce_source\<close> always returns.
\<close>

lemma py_int_raises_ValueError: "py_int k s = Inl e \<Longrightarrow> \<exists>m. e = ValueError m"
  by (auto simp: py_int_def Let_def split: option.splits if_splits)

lemma coerce_source_value:
  "coerce_source k src = Inr (case py_int k src of Inr n \<Rightarrow> SrcInt n | Inl e \<Rightarrow> SrcStr src)"
proof (cases "py_int k src")
  case (Inl e)
  then obtain m where "e = ValueError m"
    using py_int_raises_ValueError by blast
  with Inl show ?thesis by (simp add: coerce_source_def)
next
  case (Inr n)
  then show ?thesis by (simp add: coerce_source_def)
qed

lemma digit_cases: "n < 10 \<Longrightarrow> n \<in> {0, 1, 2, 3, 4, 5, 6, 7, 8, 9 :: nat}"
  by auto

lemma digit_val_digit:
  assumes "n < 10"
  shows "digit_val (''0123456789'' ! n) = Some n"
    and "''0123456789'' ! n \<noteq> CHR ''_''"
    and "''0123456789'' ! n \<noteq> CHR ''-''"
    and "''0123456789'' ! n \<noteq> CHR ''+''"
    and "\<not> is_space (''0123456789'' ! n)"
  using digit_cases [OF assms] by (auto simp: digit_val_def is_space_def)

lemma scan_digits_str_nat:
  "scan_digits need acc (str_nat n @ rest)
     = scan_digits False (acc * 10 ^ length (str_nat n) + n) rest"
proof (induction n arbitrary: need acc rest rule: str_nat.induct)
  case (1 n)
  show ?case
  proof (cases "n < 10")
    case True
    then show ?thesis
      by (simp add: str_nat.simps [of n] digit_val_digit)
  next
    case False
    have d: "n mod 10 < 10" by simp
    have "scan_digits need acc (str_nat n @ rest)
        = scan_digits need acc (str_nat (n div 10) @ (''0123456789'' ! (n mod 10)) # rest)"
      using False by (simp add: str_nat.simps [of n])
    also have "\<dots> = scan_digits False (acc * 10 ^ length (str_nat (n div 10)) + n div 10)
                        ((''0123456789'' ! (n mod 10)) # rest)"
      using "1.IH" [OF False] by simp
    also have "\<dots> = scan_digits False
                        ((acc * 10 ^ length (str_nat (n div 10)) + n div 10) * 10 + n mod 10) rest"
      by (simp add: digit_val_digit [OF d])
    also have "(acc * 10 ^ length (str_nat (n div 10)) + n div 10) * 10 + n mod 10
                 = acc * 10 ^ length (str_nat n) + n"
      using False by (simp add: str_nat.simps [of n] algebra_simps)
    finally show ?thesis .
  qed
qed

lemma str_nat_chars: "c \<in> set (str_nat n) \<Longrightarrow> \<exists>d < 10. c = ''0123456789'' ! d"
proof (induction n rule: str_nat.induct)
  case (1 n)
  show ?case
  proof (cases "n < 10")
    case True
    with "1.prems" show ?thesis
      by (auto simp: str_nat.simps [of n])
  next
    case False
    then have "c \<in> set (str_nat (n div 10)) \<or> c = ''0123456789'' ! (n mod 10)"
      using "1.prems" by (auto simp: str_nat.simps [of n])
    then show ?thesis
    proof
      assume "c \<in> set (str_nat (n div 10))"
      then show ?thesis using "1.IH" [OF False] by blast
    next
      assume "c = ''0123456789'' ! (n mod 10)"
      moreover have "n mod 10 < 10" by simp
      ultimately show ?thesis by blast
    qed
  qed
qed

lemma str_nat_not_Nil: "str_nat n \<noteq> []"
  by (simp add: str_nat.simps [of n])

lemma str_nat_char_props:
  assumes "c \<in> set (str_nat n)"
  shows "\<not> is_space c" and "c \<noteq> CHR ''-''" and "c \<noteq> CHR ''+''" and "c \<noteq> CHR ''_''"
proof -
  obtain d where d: "d < 10" "c = ''0123456789'' ! d"
    using str_nat_chars [OF assms] by blast
  show "\<not> is_space c" and "c \<noteq> CHR ''-''" and "c \<noteq> CHR ''+''" and "c \<noteq> CHR ''_''"
    using digit_val_digit [OF d(1)] d(2) by simp_all
qed

lemma strip_no_space:
  assumes "xs \<noteq> []" and "\<not> is_space (hd xs)" and "\<not> is_space (last xs)"
  shows "strip xs = xs"
proof -
  have "dropWhile is_space xs = xs"
    using assms by (cases xs) simp_all
  moreover have "dropWhile is_space (rev xs) = rev xs"
    using assms by (cases "rev xs") (simp_all add: hd_rev)
  ultimately show ?thesis by (simp add: strip_def)
qed

lemma filter_str_nat: "filter (\<lambda>c. c \<noteq> CHR ''_'') (str_nat n) = str_nat n"
  using str_nat_char_props(4) by (simp add: filter_id_conv)

text \<open>
  Reading back the decimal text of an integer gives the integer, when the text is within
  the limit on digits.
\<close>

lemma py_int_str_int:
  assumes "k = 0 \<or> length (str_nat (nat \<bar>i\<bar>)) \<le> k"
  shows "py_int k (str_int i) = Inr i"
proof -
  let ?n = "nat \<bar>i\<bar>"
  obtain c cs where cs: "str_nat ?n = c # cs"
    using str_nat_not_Nil [of ?n] by (cases "str_nat ?n") auto
  have "c \<in> set (str_nat ?n)"
    by (simp add: cs)
  note c = str_nat_char_props [OF this]
  have "last (str_nat ?n) \<in> set (str_nat ?n)"
    using str_nat_not_Nil by (rule last_in_set)
  note l = str_nat_char_props(1) [OF this]
  have sc: "scan_digits True 0 (str_nat ?n) = Some ?n"
    using scan_digits_str_nat [of True 0 ?n "[]"] by simp
  have lim: "\<not> (0 < k \<and> k < length (filter (\<lambda>c. c \<noteq> CHR ''_'') (str_nat ?n)))"
    using assms by (auto simp: filter_str_nat)
  show ?thesis
  proof (cases "i < 0")
    case True
    then have s: "str_int i = CHR ''-'' # str_nat ?n"
      by (simp add: str_int_def abs_if)
    have "\<not> is_space (CHR ''-'')"
      by (simp add: is_space_def)
    then have "strip (CHR ''-'' # str_nat ?n) = CHR ''-'' # str_nat ?n"
      using l str_nat_not_Nil [of ?n] by (intro strip_no_space) simp_all
    then have "py_int k (CHR ''-'' # str_nat ?n) = Inr (- int ?n)"
      using sc lim by (simp add: py_int_def Let_def)
    then show ?thesis
      using True by (simp add: s)
  next
    case False
    then have s: "str_int i = str_nat ?n"
      by (simp add: str_int_def abs_if)
    have "strip (str_nat ?n) = str_nat ?n"
      using l c(1) str_nat_not_Nil [of ?n] by (intro strip_no_space) (simp_all add: cs)
    moreover have "take 1 (str_nat ?n) \<noteq> ''-''" "take 1 (str_nat ?n) \<noteq> ''+''"
      using c by (simp_all add: cs)
    ultimately have "py_int k (str_nat ?n) = Inr (int ?n)"
      using sc lim by (simp add: py_int_def Let_def)
    then show ?thesis
      using False by (simp add: s)
  qed
qed

text \<open>
  Claim C8. \<^verbatim>\<open>coerce_source\<close> never raises: it returns the integer that \<^verbatim>\<open>int\<close> reads from
  the string when \<^verbatim>\<open>int\<close> accepts it, and the string itself, unchanged, when \<^verbatim>\<open>int\<close> raises.
  The decimal text of an integer, within the limit on digits, gives that integer; the
  strings \<^verbatim>\<open>0\<close>, \<^verbatim>\<open>-1\<close> and \<^verbatim>\<open>7\<close> between spaces give 0, -1 and 7.
\<close>

theorem coerce_source_int_or_unchanged:
  "(\<exists>r. coerce_source k src = Inr r)
   \<and> (\<forall>n. py_int k src = Inr n \<longrightarrow> coerce_source k src = Inr (SrcInt n))
   \<and> (\<forall>e. py_int k src = Inl e \<longrightarrow> coerce_source k src = Inr (SrcStr src))
   \<and> (k = 0 \<or> length (str_nat (nat \<bar>i\<bar>)) \<le> k \<longrightarrow> coerce_source k (str_int i) = Inr (SrcInt i))
   \<and> coerce_source k ''0'' = Inr (SrcInt 0)
   \<and> coerce_source k ''-1'' = Inr (SrcInt (- 1))
   \<and> coerce_source k '' 7 '' = Inr (SrcInt 7)"
proof -
  have 1: "coerce_source k ''0'' = Inr (SrcInt 0)"
    by (auto simp: coerce_source_def py_int_def strip_def is_space_def digit_val_def)
  have 2: "coerce_source k ''-1'' = Inr (SrcInt (- 1))"
    by (auto simp: coerce_source_def py_int_def strip_def is_space_def digit_val_def)
  have 3: "coerce_source k '' 7 '' = Inr (SrcInt 7)"
    by (auto simp: coerce_source_def py_int_def strip_def is_space_def digit_val_def)
  have 4: "k = 0 \<or> length (str_nat (nat \<bar>i\<bar>)) \<le> k \<longrightarrow> coerce_source k (str_int i) = Inr (SrcInt i)"
    using py_int_str_int [of k i] by (simp add: coerce_source_value)
  show ?thesis
    using 1 2 3 4 by (simp add: coerce_source_value)
qed

text \<open>
  Witness for C8: \<^verbatim>\<open>12\<close> is read as an integer, \<^verbatim>\<open>video.mp4\<close> is returned as it is.
\<close>

theorem coerce_source_int_or_unchanged_witness:
  "py_int 4300 ''12'' = Inr 12 \<and> coerce_source 4300 ''12'' = Inr (SrcInt 12)
   \<and> py_int 4300 ''video.mp4'' = Inl (ValueError ''invalid literal for int() with base 10'')
   \<and> coerce_source 4300 ''video.mp4'' = Inr (SrcStr ''video.mp4'')"
proof -
  have a: "py_int 4300 ''12'' = Inr 12"
    by (simp add: py_int_def strip_def is_space_def digit_val_def)
  have b: "py_int 4300 ''video.mp4'' = Inl (ValueError ''invalid literal for int() with base 10'')"
    by (simp add: py_int_def strip_def is_space_def digit_val_def)
  have 1: "coerce_source 4300 ''12'' = Inr (SrcInt 12)"
    using coerce_source_int_or_unchanged [of 4300 "''12''"] a by blast
  have 2: "coerce_source 4300 ''video.mp4'' = Inr (SrcStr ''video.mp4'')"
    using coerce_source_int_or_unchanged [of 4300 "''video.mp4''"] b by blast
  show ?thesis
    using a b 1 2 by blast
qed

section \<open>Properties of main\<close>

lemma main_argparse_exit:
  "parse_args w = ArgparseExit n \<Longrightarrow> main w = ([ParseArgs], SysExit n)"
  by (simp add: main_def)

lemma main_not_found:
  assumes "parse_args w = Parsed a"
    and "snd (resolve_weights_path (files w) (choose_weights a)) = Inl (FileNotFoundError m)"
  shows "main w = ([ParseArgs, Resolve (choose_weights a), Print m, Print msg_hint], SysExit 1)"
  using assms by (simp add: main_def Let_def)

lemma main_resolve_raises:
  assumes "parse_args w = Parsed a"
    and "snd (resolve_weights_path (files w) (choose_weights a)) = Inl e"
    and "\<forall>m. e \<noteq> FileNotFoundError m"
  shows "main w = ([ParseArgs, Resolve (choose_weights a)], Uncaught e)"
  using assms by (cases e) (simp_all add: main_def Let_def)

lemma main_check:
  assumes "parse_args w = Parsed a"
    and "snd (resolve_weights_path (files w) (choose_weights a)) = Inr p"
    and "args_check a"
  shows "main w = ([ParseArgs, Resolve (choose_weights a), Print (''Using weights: '' @ str_path p),
                    Print msg_check], Returned)"
  using assms by (simp add: main_def Let_def)

lemma main_run:
  assumes "parse_args w = Parsed a"
    and "snd (resolve_weights_path (files w) (choose_weights a)) = Inr p"
    and "\<not> args_check a"
  shows "main w = ([ParseArgs, Resolve (choose_weights a), Print (''Using weights: '' @ str_path p)]
                     @ fst (run_model w a p), snd (run_model w a p))"
  using assms by (simp add: main_def Let_def split: prod.splits)

lemma run_model_constructor_raises:
  "YOLO w (str_path p) = Inl e \<Longrightarrow> run_model w a p = ([Construct (str_path p)], Uncaught e)"
  by (simp add: run_model_def)

lemma run_model_predict_raises:
  assumes "YOLO w (str_path p) = Inr m"
    and "coerce_source (int_max_str_digits w) (args_source a) = Inr src"
    and "predict m (predict_kwargs a src) = Inl e"
  shows "run_model w a p =
           ([Construct (str_path p), Print (''Starting inference on source: '' @ str_source src),
             Predict (predict_kwargs a src)], Uncaught e)"
  using assms by (simp add: run_model_def Let_def)

lemma run_model_summary:
  assumes "YOLO w (str_path p) = Inr m"
    and "coerce_source (int_max_str_digits w) (args_source a) = Inr src"
    and "predict m (predict_kwargs a src) = Inr rs"
  shows "run_model w a p =
           ([Construct (str_path p), Print (''Starting inference on source: '' @ str_source src),
             Predict (predict_kwargs a src)] @ fst (print_summary m rs),
            summary_outcome (snd (print_summary m rs)))"
  using assms by (simp add: run_model_def Let_def summary_outcome_def split: prod.splits option.splits)

lemma print_summary_names_read:
  "read_names m = Inr nm \<Longrightarrow>
     print_summary m (ResultList (first # rest)) =
       (Print msg_done # (case summary_body nm first of
                            (tr, None) \<Rightarrow> tr
                          | (tr, Some e) \<Rightarrow> tr @ [Print msg_unavailable]), None)"
  by (simp add: print_summary_def)

lemma print_summary_names_raise:
  "read_names m = Inl e \<Longrightarrow> print_summary m (ResultList (first # rest)) = ([], Some e)"
  by (simp add: print_summary_def)

lemma print_summary_no_result:
  "print_summary m NotAList = ([], None)" "print_summary m (ResultList []) = ([], None)"
  by (simp_all add: print_summary_def)

lemma steps_Nil: "steps [] = []"
  by (simp add: steps_def)

lemma steps_Print: "steps (Print s # tr) = steps tr"
  by (simp add: steps_def)

lemma steps_PrintDetection: "steps (PrintDetection i l c # tr) = steps tr"
  by (simp add: steps_def)

lemma steps_append: "steps (xs @ ys) = steps xs @ steps ys"
  by (simp add: steps_def)

lemma steps_print_boxes: "print_boxes nm i bs = (tr, r) \<Longrightarrow> steps tr = []"
proof (induction bs arbitrary: i tr r)
  case Nil
  then show ?case by (simp add: steps_Nil)
next
  case (Cons b bs)
  then show ?case
    by (auto simp: steps_Nil steps_PrintDetection Let_def
        split: sum.splits option.splits prod.splits)
qed

lemma steps_summary_body: "summary_body nm first = (tr, r) \<Longrightarrow> steps tr = []"
  by (auto simp: summary_body_def steps_Nil steps_Print
      split: sum.splits option.splits if_splits dest: steps_print_boxes)

lemma steps_print_summary: "steps (fst (print_summary m rs)) = []"
proof -
  have "steps (case summary_body nm first of
             (tr, None) \<Rightarrow> tr | (tr, Some e) \<Rightarrow> tr @ [Print msg_unavailable]) = []" for nm first
    by (auto simp: steps_append steps_Nil steps_Print
        split: prod.splits option.splits dest: steps_summary_body)
  then show ?thesis
    by (auto simp: print_summary_def steps_Nil steps_Print
        split: results.splits list.splits sum.splits)
qed

lemma steps_empty_no_step:
  assumes "steps tr = []"
  shows "Construct s \<notin> set tr" and "Predict kw \<notin> set tr"
  using assms by (auto simp: steps_def filter_empty_conv)

lemma print_summary_no_step:
  "Construct s \<notin> set (fst (print_summary m rs))" "Predict kw \<notin> set (fst (print_summary m rs))"
  using steps_empty_no_step [OF steps_print_summary] by blast+

lemma steps_Cons_step:
  "steps (ParseArgs # tr) = ParseArgs # steps tr"
  "steps (Resolve c # tr) = Resolve c # steps tr"
  "steps (Construct s # tr) = Construct s # steps tr"
  "steps (Predict kw # tr) = Predict kw # steps tr"
  by (simp_all add: steps_def)

lemmas steps_simps = steps_Nil steps_Print steps_PrintDetection steps_Cons_step steps_append
  steps_print_summary

text \<open>
  Every run whose arguments parse has one of six shapes: the weights are not found, the
  resolution raises another exception, the run stops at \<^verbatim>\<open>--check\<close>, the constructor
  raises, \<^verbatim>\<open>predict\<close> raises, or \<^verbatim>\<open>predict\<close> returns and the summary follows.
\<close>

lemma main_shapes:
  assumes "parse_args w = Parsed a"
  shows
    "(\<exists>m. snd (resolve_weights_path (files w) (choose_weights a)) = Inl (FileNotFoundError m)
        \<and> main w = ([ParseArgs, Resolve (choose_weights a), Print m, Print msg_hint], SysExit 1))
   \<or> (\<exists>e. snd (resolve_weights_path (files w) (choose_weights a)) = Inl e
        \<and> main w = ([ParseArgs, Resolve (choose_weights a)], Uncaught e))
   \<or> (\<exists>p. snd (resolve_weights_path (files w) (choose_weights a)) = Inr p \<and> args_check a
        \<and> main w = ([ParseArgs, Resolve (choose_weights a),
                      Print (''Using weights: '' @ str_path p), Print msg_check], Returned))
   \<or> (\<exists>p e. snd (resolve_weights_path (files w) (choose_weights a)) = Inr p \<and> \<not> args_check a
        \<and> YOLO w (str_path p) = Inl e
        \<and> main w = ([ParseArgs, Resolve (choose_weights a),
                      Print (''Using weights: '' @ str_path p), Construct (str_path p)],
                     Uncaught e))
   \<or> (\<exists>p m src e. snd (resolve_weights_path (files w) (choose_weights a)) = Inr p
        \<and> \<not> args_check a \<and> YOLO w (str_path p) = Inr m
        \<and> coerce_source (int_max_str_digits w) (args_source a) = Inr src
        \<and> predict m (predict_kwargs a src) = Inl e
        \<and> main w = ([ParseArgs, Resolve (choose_weights a),
                      Print (''Using weights: '' @ str_path p), Construct (str_path p),
                      Print (''Starting inference on source: '' @ str_source src),
                      Predict (predict_kwargs a src)], Uncaught e))
   \<or> (\<exists>p m src rs. snd (resolve_weights_path (files w) (choose_weights a)) = Inr p
        \<and> \<not> args_check a \<and> YOLO w (str_path p) = Inr m
        \<and> coerce_source (int_max_str_digits w) (args_source a) = Inr src
        \<and> predict m (predict_kwargs a src) = Inr rs
        \<and> main w = ([ParseArgs, Resolve (choose_weights a),
                      Print (''Using weights: '' @ str_path p), Construct (str_path p),
                      Print (''Starting inference on source: '' @ str_source src),
                      Predict (predict_kwargs a src)] @ fst (print_summary m rs),
                     summary_outcome (snd (print_summary m rs))))"
proof (cases "snd (resolve_weights_path (files w) (choose_weights a))")
  case (Inl e)
  show ?thesis
  proof (cases "\<exists>m. e = FileNotFoundError m")
    case True
    then obtain m where "e = FileNotFoundError m" by blast
    with Inl show ?thesis
      using main_not_found [OF assms, of m] by blast
  next
    case False
    then show ?thesis
      using Inl main_resolve_raises [OF assms Inl] by blast
  qed
next
  case (Inr p)
  show ?thesis
  proof (cases "args_check a")
    case True
    then show ?thesis
      using Inr main_check [OF assms Inr] by blast
  next
    case False
    note run = main_run [OF assms Inr False]
    obtain src where src: "coerce_source (int_max_str_digits w) (args_source a) = Inr src"
      using coerce_source_value by blast
    show ?thesis
    proof (cases "YOLO w (str_path p)")
      case (Inl e)
      then show ?thesis
        using Inr False run run_model_constructor_raises [OF Inl, of a] by auto
    next
      case m: (Inr m)
      show ?thesis
      proof (cases "predict m (predict_kwargs a src)")
        case (Inl e)
        then show ?thesis
          using Inr False m src run run_model_predict_raises [OF m src Inl] by auto
      next
        case rs: (Inr rs)
        then show ?thesis
          using Inr False m src run run_model_summary [OF m src rs] by auto
      qed
    qed
  qed
qed

subsection \<open>The example runs\<close>

lemma example_resolve: "snd (resolve_weights_path example_fs ''a.pt'') = Inr (Path ''a.pt'')"
proof -
  have "upper ''a.pt'' \<noteq> ''AUTO''"
    by (simp add: upper_def upper_char_def)
  moreover have "\<not> is_absolute (Path ''a.pt'')"
    by (simp add: example_path_defs)
  moreover have "is_file example_fs (Path ''a.pt'') = Inr True"
    by (simp add: example_fs_defs example_path_defs)
  ultimately show ?thesis
    by (simp add: resolve_relative)
qed

lemma example_resolve_missing:
  "snd (resolve_weights_path example_fs ''/missing.pt'')
     = Inl (FileNotFoundError (msg_tried ''/missing.pt'' [Path ''/missing.pt'']))"
proof -
  have "is_absolute (Path ''/missing.pt'')"
    by (simp add: example_path_defs)
  moreover have "is_file example_fs (Path ''/missing.pt'') = Inr False"
    by (simp add: example_fs_defs example_path_defs)
  ultimately show ?thesis
    by (simp add: resolve_absolute)
qed

lemma example_str_path: "str_path (Path ''a.pt'') = ''a.pt''"
  by (simp add: str_path_def Path_def splitroot_def)

lemma example_coerce: "coerce_source 4300 ''0'' = Inr (SrcInt 0)"
  by (simp add: coerce_source_def py_int_def strip_def is_space_def digit_val_def)

lemma example_choose: "choose_weights example_args = ''a.pt''"
  by (simp add: choose_weights_def example_args_def)

lemma example_parse: "parse_args example_world = Parsed example_args"
  by (simp add: example_world_def)

lemma example_world_resolve:
  "snd (resolve_weights_path (files example_world) (choose_weights example_args)) = Inr (Path ''a.pt'')"
  by (simp add: example_world_def example_choose example_resolve)

lemma example_no_check: "\<not> args_check example_args"
  by (simp add: example_args_def)

lemma example_YOLO: "YOLO example_world (str_path (Path ''a.pt'')) = Inr example_model"
  by (simp add: example_world_def)

lemma example_world_coerce:
  "coerce_source (int_max_str_digits example_world) (args_source example_args) = Inr (SrcInt 0)"
  by (simp add: example_world_def example_args_def example_coerce)

lemma example_predict:
  "predict example_model (predict_kwargs example_args (SrcInt 0))
     = Inr (ResultList [Result (Inr (Some example_boxes))])"
  by (simp add: example_model_def)

lemma example_read_names:
  "read_names example_model = Inr (Some [0 \<mapsto> ''fire'', 1 \<mapsto> ''smoke''])"
  by (simp add: read_names_def example_model_def)

lemma example_summary_body:
  "summary_body (Some [0 \<mapsto> ''fire'', 1 \<mapsto> ''smoke'']) (Result (Inr (Some example_boxes)))
     = ([PrintDetection 1 ''smoke'' 0.5, PrintDetection 2 ''-1'' 0],
        Some (OtherException ''IndexError'' ''index 0 is out of bounds''))"
  by (simp add: summary_body_def example_boxes_def str_int_def str_nat.simps)

lemma example_print_summary:
  "print_summary example_model (ResultList [Result (Inr (Some example_boxes))])
     = ([Print msg_done, PrintDetection 1 ''smoke'' 0.5, PrintDetection 2 ''-1'' 0,
         Print msg_unavailable], None)"
  by (simp add: print_summary_names_read [OF example_read_names] example_summary_body)

subsection \<open>Exit status\<close>

text \<open>
  Claim C5, as stated, fails: when the weights are resolved and the model constructor
  raises, the exception leaves \<^verbatim>\<open>main\<close> and the status is 1, not 0.
\<close>

theorem constructor_failure_exit_status:
  "snd (resolve_weights_path (files world_constructor_fails) ''a.pt'') = Inr (Path ''a.pt'')
   \<and> main world_constructor_fails
       = ([ParseArgs, Resolve ''a.pt'', Print ''Using weights: a.pt'', Construct ''a.pt''],
          Uncaught (OtherException ''RuntimeError'' ''invalid weights file''))
   \<and> exit_status (snd (main world_constructor_fails)) = 1"
proof -
  have p: "parse_args world_constructor_fails = Parsed example_args"
    by (simp add: world_constructor_fails_def example_world_def)
  have r: "snd (resolve_weights_path (files world_constructor_fails) (choose_weights example_args))
             = Inr (Path ''a.pt'')"
    by (simp add: example_choose example_resolve world_constructor_fails_def example_world_def)
  have c: "\<not> args_check example_args"
    by (simp add: example_args_def)
  have y: "YOLO world_constructor_fails (str_path (Path ''a.pt''))
             = Inl (OtherException ''RuntimeError'' ''invalid weights file'')"
    by (simp add: world_constructor_fails_def)
  have m: "main world_constructor_fails
       = ([ParseArgs, Resolve ''a.pt'', Print ''Using weights: a.pt'', Construct ''a.pt''],
          Uncaught (OtherException ''RuntimeError'' ''invalid weights file''))"
    by (simp add: main_run [OF p r c] run_model_constructor_raises [OF y] example_choose
        example_str_path)
  show ?thesis
    using r m by (simp add: example_choose)
qed

text \<open>
  Claim C5, amended. When the resolution raises \<^verbatim>\<open>FileNotFoundError\<close>, the program prints the
  failure and the hint and exits with status 1; another exception of the resolution is
  not handled and leaves \<^verbatim>\<open>main\<close>. When the weights are resolved and \<^verbatim>\<open>--check\<close> is given, it
  exits with status 0. When they are resolved without \<^verbatim>\<open>--check\<close>, it exits with status 0 if
  the constructor and \<^verbatim>\<open>predict\<close> return and, where the results are a list that is not
  empty, the read of \<^verbatim>\<open>model.names\<close> raises nothing but \<^verbatim>\<open>AttributeError\<close>; an exception raised
  by the constructor, by \<^verbatim>\<open>predict\<close> or by that read leaves \<^verbatim>\<open>main\<close>.
\<close>

theorem main_exit_status:
  assumes "parse_args w = Parsed a"
  shows
    "(\<forall>m. snd (resolve_weights_path (files w) (choose_weights a)) = Inl (FileNotFoundError m) \<longrightarrow>
        main w = ([ParseArgs, Resolve (choose_weights a), Print m, Print msg_hint], SysExit 1)
        \<and> exit_status (snd (main w)) = 1)
   \<and> (\<forall>e. snd (resolve_weights_path (files w) (choose_weights a)) = Inl e
        \<and> (\<forall>m. e \<noteq> FileNotFoundError m) \<longrightarrow>
        main w = ([ParseArgs, Resolve (choose_weights a)], Uncaught e))
   \<and> (\<forall>p. snd (resolve_weights_path (files w) (choose_weights a)) = Inr p \<and> args_check a \<longrightarrow>
        exit_status (snd (main w)) = 0)
   \<and> (\<forall>p m src rs. snd (resolve_weights_path (files w) (choose_weights a)) = Inr p
        \<and> \<not> args_check a \<and> YOLO w (str_path p) = Inr m
        \<and> coerce_source (int_max_str_digits w) (args_source a) = Inr src
        \<and> predict m (predict_kwargs a src) = Inr rs
        \<and> ((\<exists>nm. read_names m = Inr nm) \<or> rs = NotAList \<or> rs = ResultList []) \<longrightarrow>
        exit_status (snd (main w)) = 0)
   \<and> (\<forall>p e. snd (resolve_weights_path (files w) (choose_weights a)) = Inr p
        \<and> \<not> args_check a \<and> YOLO w (str_path p) = Inl e \<longrightarrow>
        snd (main w) = Uncaught e)
   \<and> (\<forall>p m src e. snd (resolve_weights_path (files w) (choose_weights a)) = Inr p
        \<and> \<not> args_check a \<and> YOLO w (str_path p) = Inr m
        \<and> coerce_source (int_max_str_digits w) (args_source a) = Inr src
        \<and> predict m (predict_kwargs a src) = Inl e \<longrightarrow>
        snd (main w) = Uncaught e)
   \<and> (\<forall>p m src first rest e. snd (resolve_weights_path (files w) (choose_weights a)) = Inr p
        \<and> \<not> args_check a \<and> YOLO w (str_path p) = Inr m
        \<and> coerce_source (int_max_str_digits w) (args_source a) = Inr src
        \<and> predict m (predict_kwargs a src) = Inr (ResultList (first # rest))
        \<and> read_names m = Inl e \<longrightarrow>
        snd (main w) = Uncaught e)"
proof (intro conjI allI impI)
  fix m assume r: "snd (resolve_weights_path (files w) (choose_weights a)) = Inl (FileNotFoundError m)"
  show "main w = ([ParseArgs, Resolve (choose_weights a), Print m, Print msg_hint], SysExit 1)"
    using main_not_found [OF assms r] .
  show "exit_status (snd (main w)) = 1"
    using main_not_found [OF assms r] by simp
next
  fix e assume "snd (resolve_weights_path (files w) (choose_weights a)) = Inl e
        \<and> (\<forall>m. e \<noteq> FileNotFoundError m)"
  then show "main w = ([ParseArgs, Resolve (choose_weights a)], Uncaught e)"
    using main_resolve_raises [OF assms] by blast
next
  fix p assume "snd (resolve_weights_path (files w) (choose_weights a)) = Inr p \<and> args_check a"
  then show "exit_status (snd (main w)) = 0"
    using main_check [OF assms] by simp
next
  fix p m src rs
  assume h: "snd (resolve_weights_path (files w) (choose_weights a)) = Inr p
        \<and> \<not> args_check a \<and> YOLO w (str_path p) = Inr m
        \<and> coerce_source (int_max_str_digits w) (args_source a) = Inr src
        \<and> predict m (predict_kwargs a src) = Inr rs
        \<and> ((\<exists>nm. read_names m = Inr nm) \<or> rs = NotAList \<or> rs = ResultList [])"
  then have "snd (print_summary m rs) = None"
    by (cases rs rule: results.exhaust; cases "case rs of ResultList l \<Rightarrow> l | NotAList \<Rightarrow> []")
       (auto simp: print_summary_no_result print_summary_names_read)
  then show "exit_status (snd (main w)) = 0"
    using h main_run [OF assms] run_model_summary by (simp add: summary_outcome_def)
next
  fix p e
  assume "snd (resolve_weights_path (files w) (choose_weights a)) = Inr p
        \<and> \<not> args_check a \<and> YOLO w (str_path p) = Inl e"
  then show "snd (main w) = Uncaught e"
    using main_run [OF assms] run_model_constructor_raises by simp
next
  fix p m src e
  assume "snd (resolve_weights_path (files w) (choose_weights a)) = Inr p
        \<and> \<not> args_check a \<and> YOLO w (str_path p) = Inr m
        \<and> coerce_source (int_max_str_digits w) (args_source a) = Inr src
        \<and> predict m (predict_kwargs a src) = Inl e"
  then show "snd (main w) = Uncaught e"
    using main_run [OF assms] run_model_predict_raises by simp
next
  fix p m src first rest e
  assume "snd (resolve_weights_path (files w) (choose_weights a)) = Inr p
        \<and> \<not> args_check a \<and> YOLO w (str_path p) = Inr m
        \<and> coerce_source (int_max_str_digits w) (args_source a) = Inr src
        \<and> predict m (predict_kwargs a src) = Inr (ResultList (first # rest))
        \<and> read_names m = Inl e"
  then show "snd (main w) = Uncaught e"
    using main_run [OF assms] run_model_summary
    by (simp add: print_summary_names_raise summary_outcome_def)
qed

text \<open>
  Witness for C5: the run with missing weights ends with status 1, the run with \<^verbatim>\<open>--check\<close>
  with status 0, and so does the complete example run.
\<close>

theorem main_exit_status_witness:
  "parse_args world_missing_weights = Parsed (example_args\<lparr>args_weights := Some ''/missing.pt''\<rparr>)
   \<and> exit_status (snd (main world_missing_weights)) = 1
   \<and> parse_args world_check = Parsed (example_args\<lparr>args_check := True\<rparr>)
   \<and> exit_status (snd (main world_check)) = 0
   \<and> parse_args example_world = Parsed example_args
   \<and> exit_status (snd (main example_world)) = 0"
proof -
  let ?a = "example_args\<lparr>args_weights := Some ''/missing.pt''\<rparr>"
  let ?c = "example_args\<lparr>args_check := True\<rparr>"
  have p: "parse_args world_missing_weights = Parsed ?a"
    by (simp add: world_missing_weights_def example_world_def)
  have r: "snd (resolve_weights_path (files world_missing_weights) (choose_weights ?a))
             = Inl (FileNotFoundError (msg_tried ''/missing.pt'' [Path ''/missing.pt'']))"
    by (simp add: world_missing_weights_def example_world_def choose_weights_def
        example_resolve_missing)
  have 1: "exit_status (snd (main world_missing_weights)) = 1"
    using main_exit_status [OF p] r by blast
  have q: "parse_args world_check = Parsed ?c"
    by (simp add: world_check_def example_world_def)
  have s: "snd (resolve_weights_path (files world_check) (choose_weights ?c)) = Inr (Path ''a.pt'')"
    by (simp add: world_check_def example_world_def choose_weights_def example_args_def
        example_resolve)
  have t: "args_check ?c"
    by simp
  have 2: "exit_status (snd (main world_check)) = 0"
    using main_exit_status [OF q] s t by blast
  have n: "\<exists>nm. read_names example_model = Inr nm"
    using example_read_names by blast
  have 3: "exit_status (snd (main example_world)) = 0"
    using main_exit_status [OF example_parse] example_world_resolve example_no_check example_YOLO
      example_world_coerce example_predict n
    by blast
  show ?thesis
    using p q example_parse 1 2 3 by blast
qed

subsection \<open>Order of the steps\<close>

text \<open>
  Claim C6. The steps of a run are, in this order, parsing the arguments, resolving the
  weights, constructing the model and calling \<^verbatim>\<open>predict\<close>, and a run takes an initial part
  of them that includes the first two. The model is constructed only from a path that the
  resolution returned. With \<^verbatim>\<open>--check\<close> the model is neither constructed nor run. When
  \<^verbatim>\<open>predict\<close> returns, the summary follows the call of \<^verbatim>\<open>predict\<close>.
\<close>

theorem main_step_order:
  assumes "parse_args w = Parsed a"
  shows
    "(\<exists>s kw. prefix [ParseArgs, Resolve (choose_weights a)] (steps (fst (main w)))
         \<and> prefix (steps (fst (main w)))
              [ParseArgs, Resolve (choose_weights a), Construct s, Predict kw])
   \<and> (\<forall>s. Construct s \<in> set (fst (main w)) \<longrightarrow>
         (\<exists>p. snd (resolve_weights_path (files w) (choose_weights a)) = Inr p \<and> s = str_path p))
   \<and> (args_check a \<longrightarrow>
         (\<forall>s. Construct s \<notin> set (fst (main w))) \<and> (\<forall>kw. Predict kw \<notin> set (fst (main w))))
   \<and> (\<forall>p m src rs. snd (resolve_weights_path (files w) (choose_weights a)) = Inr p
         \<and> \<not> args_check a \<and> YOLO w (str_path p) = Inr m
         \<and> coerce_source (int_max_str_digits w) (args_source a) = Inr src
         \<and> predict m (predict_kwargs a src) = Inr rs \<longrightarrow>
         fst (main w) = [ParseArgs, Resolve (choose_weights a),
                         Print (''Using weights: '' @ str_path p), Construct (str_path p),
                         Print (''Starting inference on source: '' @ str_source src),
                         Predict (predict_kwargs a src)] @ fst (print_summary m rs))"
proof -
  have 1: "\<exists>s kw. prefix [ParseArgs, Resolve (choose_weights a)] (steps (fst (main w)))
         \<and> prefix (steps (fst (main w)))
              [ParseArgs, Resolve (choose_weights a), Construct s, Predict kw]"
    using main_shapes [OF assms]
    by (elim disjE exE conjE) (auto simp: steps_simps)
  have 2: "\<forall>s. Construct s \<in> set (fst (main w)) \<longrightarrow>
         (\<exists>p. snd (resolve_weights_path (files w) (choose_weights a)) = Inr p \<and> s = str_path p)"
    using main_shapes [OF assms]
    by (elim disjE exE conjE) (simp_all add: print_summary_no_step)
  have 3: "args_check a \<longrightarrow>
         (\<forall>s. Construct s \<notin> set (fst (main w))) \<and> (\<forall>kw. Predict kw \<notin> set (fst (main w)))"
    using main_shapes [OF assms]
    by (elim disjE exE conjE) simp_all
  have 4: "\<forall>p m src rs. snd (resolve_weights_path (files w) (choose_weights a)) = Inr p
         \<and> \<not> args_check a \<and> YOLO w (str_path p) = Inr m
         \<and> coerce_source (int_max_str_digits w) (args_source a) = Inr src
         \<and> predict m (predict_kwargs a src) = Inr rs \<longrightarrow>
         fst (main w) = [ParseArgs, Resolve (choose_weights a),
                         Print (''Using weights: '' @ str_path p), Construct (str_path p),
                         Print (''Starting inference on source: '' @ str_source src),
                         Predict (predict_kwargs a src)] @ fst (print_summary m rs)"
    using main_run [OF assms] run_model_summary by simp
  show ?thesis
    using 1 2 3 4 by blast
qed

text \<open>Witness for C6: the complete example run, and the run with \<^verbatim>\<open>--check\<close>.\<close>

theorem main_step_order_witness:
  "parse_args example_world = Parsed example_args
   \<and> fst (main example_world)
       = [ParseArgs, Resolve ''a.pt'', Print ''Using weights: a.pt'', Construct ''a.pt'',
          Print ''Starting inference on source: 0'',
          Predict (predict_kwargs example_args (SrcInt 0)),
          Print msg_done, PrintDetection 1 ''smoke'' 0.5, PrintDetection 2 ''-1'' 0,
          Print msg_unavailable]
   \<and> parse_args world_check = Parsed (example_args\<lparr>args_check := True\<rparr>)
   \<and> Construct ''a.pt'' \<notin> set (fst (main world_check))"
proof -
  have "fst (main example_world)
      = [ParseArgs, Resolve (choose_weights example_args),
         Print (''Using weights: '' @ str_path (Path ''a.pt'')), Construct (str_path (Path ''a.pt'')),
         Print (''Starting inference on source: '' @ str_source (SrcInt 0)),
         Predict (predict_kwargs example_args (SrcInt 0))]
        @ fst (print_summary example_model (ResultList [Result (Inr (Some example_boxes))]))"
    using main_step_order [OF example_parse] example_world_resolve example_no_check example_YOLO
      example_world_coerce example_predict
    by blast
  then have 1: "fst (main example_world)
       = [ParseArgs, Resolve ''a.pt'', Print ''Using weights: a.pt'', Construct ''a.pt'',
          Print ''Starting inference on source: 0'',
          Predict (predict_kwargs example_args (SrcInt 0)),
          Print msg_done, PrintDetection 1 ''smoke'' 0.5, PrintDetection 2 ''-1'' 0,
          Print msg_unavailable]"
    by (simp add: example_choose example_str_path example_print_summary str_source_def
        str_int_def str_nat.simps)
  have q: "parse_args world_check = Parsed (example_args\<lparr>args_check := True\<rparr>)"
    by (simp add: world_check_def example_world_def)
  have "args_check (example_args\<lparr>args_check := True\<rparr>)"
    by simp
  then have 2: "Construct ''a.pt'' \<notin> set (fst (main world_check))"
    using main_step_order [OF q] by blast
  show ?thesis
    using example_parse 1 q 2 by blast
qed

subsection \<open>Failures other than missing weights\<close>

text \<open>
  Claim C7, as stated, fails: an exception raised by \<^verbatim>\<open>predict\<close> leaves \<^verbatim>\<open>main\<close>, and no
  fallback line is printed.
\<close>

theorem predict_failure_propagates:
  "main world_predict_fails
     = ([ParseArgs, Resolve ''a.pt'', Print ''Using weights: a.pt'', Construct ''a.pt'',
         Print ''Starting inference on source: 0'',
         Predict (predict_kwargs example_args (SrcInt 0))],
        Uncaught (OtherException ''ConnectionError'' ''cannot open camera''))
   \<and> Print msg_unavailable \<notin> set (fst (main world_predict_fails))"
proof -
  let ?m = "example_model\<lparr>predict := (\<lambda>kw. Inl (OtherException ''ConnectionError'' ''cannot open camera''))\<rparr>"
  have p: "parse_args world_predict_fails = Parsed example_args"
    by (simp add: world_predict_fails_def example_world_def)
  have r: "snd (resolve_weights_path (files world_predict_fails) (choose_weights example_args))
             = Inr (Path ''a.pt'')"
    by (simp add: example_choose example_resolve world_predict_fails_def example_world_def)
  have c: "\<not> args_check example_args"
    by (simp add: example_args_def)
  have y: "YOLO world_predict_fails (str_path (Path ''a.pt'')) = Inr ?m"
    by (simp add: world_predict_fails_def)
  have s: "coerce_source (int_max_str_digits world_predict_fails) (args_source example_args)
             = Inr (SrcInt 0)"
    by (simp add: world_predict_fails_def example_world_def example_args_def example_coerce)
  have e: "predict ?m (predict_kwargs example_args (SrcInt 0))
             = Inl (OtherException ''ConnectionError'' ''cannot open camera'')"
    by simp
  have m: "main world_predict_fails
     = ([ParseArgs, Resolve ''a.pt'', Print ''Using weights: a.pt'', Construct ''a.pt'',
         Print ''Starting inference on source: 0'',
         Predict (predict_kwargs example_args (SrcInt 0))],
        Uncaught (OtherException ''ConnectionError'' ''cannot open camera''))"
    by (simp add: main_run [OF p r c] run_model_predict_raises [OF y s e] example_choose
        example_str_path str_source_def str_int_def str_nat.simps)
  show ?thesis
    by (simp add: m msg_unavailable_def)
qed

text \<open>
  Claim C7, amended. An exception raised inside the \<^verbatim>\<open>try\<close> block of the summary, where the
  boxes of the first result, their number, and the class and confidence of each box are
  read, is swallowed: the lines printed so far are followed by the fallback line and
  \<^verbatim>\<open>main\<close> returns. An exception raised elsewhere is not swallowed and leaves \<^verbatim>\<open>main\<close>: one
  raised by the model constructor, by \<^verbatim>\<open>predict\<close>, or by the read of \<^verbatim>\<open>model.names\<close> before
  the \<^verbatim>\<open>try\<close> block, unless it is the \<^verbatim>\<open>AttributeError\<close> that \<^verbatim>\<open>hasattr\<close> swallows.
\<close>

theorem summary_exception_swallowed:
  assumes "parse_args w = Parsed a"
    and "snd (resolve_weights_path (files w) (choose_weights a)) = Inr p"
    and "\<not> args_check a"
  shows
    "(\<forall>m src first rest nm. YOLO w (str_path p) = Inr m
         \<and> coerce_source (int_max_str_digits w) (args_source a) = Inr src
         \<and> predict m (predict_kwargs a src) = Inr (ResultList (first # rest))
         \<and> read_names m = Inr nm \<longrightarrow>
         snd (main w) = Returned
         \<and> (\<forall>tr e. summary_body nm first = (tr, Some e) \<longrightarrow>
               fst (main w) = [ParseArgs, Resolve (choose_weights a),
                         Print (''Using weights: '' @ str_path p), Construct (str_path p),
                         Print (''Starting inference on source: '' @ str_source src),
                         Predict (predict_kwargs a src), Print msg_done]
                        @ tr @ [Print msg_unavailable]))
   \<and> (\<forall>e. YOLO w (str_path p) = Inl e \<longrightarrow>
         main w = ([ParseArgs, Resolve (choose_weights a),
                    Print (''Using weights: '' @ str_path p), Construct (str_path p)],
                   Uncaught e))
   \<and> (\<forall>m src e. YOLO w (str_path p) = Inr m
         \<and> coerce_source (int_max_str_digits w) (args_source a) = Inr src
         \<and> predict m (predict_kwargs a src) = Inl e \<longrightarrow>
         main w = ([ParseArgs, Resolve (choose_weights a),
                    Print (''Using weights: '' @ str_path p), Construct (str_path p),
                    Print (''Starting inference on source: '' @ str_source src),
                    Predict (predict_kwargs a src)], Uncaught e))
   \<and> (\<forall>m src first rest e. YOLO w (str_path p) = Inr m
         \<and> coerce_source (int_max_str_digits w) (args_source a) = Inr src
         \<and> predict m (predict_kwargs a src) = Inr (ResultList (first # rest))
         \<and> read_names m = Inl e \<longrightarrow>
         main w = ([ParseArgs, Resolve (choose_weights a),
                    Print (''Using weights: '' @ str_path p), Construct (str_path p),
                    Print (''Starting inference on source: '' @ str_source src),
                    Predict (predict_kwargs a src)], Uncaught e))
   \<and> (\<forall>m s. names m = Inl (AttributeError s) \<longrightarrow> read_names m = Inr None)
   \<and> (\<forall>m e. names m = Inl e \<and> (\<forall>s. e \<noteq> AttributeError s) \<longrightarrow> read_names m = Inl e)"
proof -
  note run = main_run [OF assms]
  have 1: "\<forall>m src first rest nm. YOLO w (str_path p) = Inr m
         \<and> coerce_source (int_max_str_digits w) (args_source a) = Inr src
         \<and> predict m (predict_kwargs a src) = Inr (ResultList (first # rest))
         \<and> read_names m = Inr nm \<longrightarrow>
         snd (main w) = Returned
         \<and> (\<forall>tr e. summary_body nm first = (tr, Some e) \<longrightarrow>
               fst (main w) = [ParseArgs, Resolve (choose_weights a),
                         Print (''Using weights: '' @ str_path p), Construct (str_path p),
                         Print (''Starting inference on source: '' @ str_source src),
                         Predict (predict_kwargs a src), Print msg_done]
                        @ tr @ [Print msg_unavailable])"
    using run run_model_summary
    by (simp add: print_summary_names_read summary_outcome_def)
  have 2: "\<forall>e. YOLO w (str_path p) = Inl e \<longrightarrow>
         main w = ([ParseArgs, Resolve (choose_weights a),
                    Print (''Using weights: '' @ str_path p), Construct (str_path p)],
                   Uncaught e)"
    using run run_model_constructor_raises by simp
  have 3: "\<forall>m src e. YOLO w (str_path p) = Inr m
         \<and> coerce_source (int_max_str_digits w) (args_source a) = Inr src
         \<and> predict m (predict_kwargs a src) = Inl e \<longrightarrow>
         main w = ([ParseArgs, Resolve (choose_weights a),
                    Print (''Using weights: '' @ str_path p), Construct (str_path p),
                    Print (''Starting inference on source: '' @ str_source src),
                    Predict (predict_kwargs a src)], Uncaught e)"
    using run run_model_predict_raises by simp
  have 4: "\<forall>m src first rest e. YOLO w (str_path p) = Inr m
         \<and> coerce_source (int_max_str_digits w) (args_source a) = Inr src
         \<and> predict m (predict_kwargs a src) = Inr (ResultList (first # rest))
         \<and> read_names m = Inl e \<longrightarrow>
         main w = ([ParseArgs, Resolve (choose_weights a),
                    Print (''Using weights: '' @ str_path p), Construct (str_path p),
                    Print (''Starting inference on source: '' @ str_source src),
                    Predict (predict_kwargs a src)], Uncaught e)"
    using run run_model_summary
    by (simp add: print_summary_names_raise summary_outcome_def)
  have 5: "\<forall>m s. names m = Inl (AttributeError s) \<longrightarrow> read_names m = Inr None"
    by (simp add: read_names_def)
  have 6: "\<forall>m e. names m = Inl e \<and> (\<forall>s. e \<noteq> AttributeError s) \<longrightarrow> read_names m = Inl e"
    by (auto simp: read_names_def split: exn.splits)
  show ?thesis
    using 1 2 3 4 5 6 by blast
qed

text \<open>
  Witness for C7: in the example the third box raises after two lines of the summary and
  the run returns; when the read of \<^verbatim>\<open>names\<close> raises, the exception leaves \<^verbatim>\<open>main\<close>.
\<close>

theorem summary_exception_swallowed_witness:
  "parse_args example_world = Parsed example_args
   \<and> snd (resolve_weights_path (files example_world) (choose_weights example_args))
       = Inr (Path ''a.pt'')
   \<and> \<not> args_check example_args
   \<and> summary_body (Some [0 \<mapsto> ''fire'', 1 \<mapsto> ''smoke'']) (Result (Inr (Some example_boxes)))
       = ([PrintDetection 1 ''smoke'' 0.5, PrintDetection 2 ''-1'' 0],
          Some (OtherException ''IndexError'' ''index 0 is out of bounds''))
   \<and> snd (main example_world) = Returned
   \<and> fst (main example_world)
       = [ParseArgs, Resolve ''a.pt'', Print ''Using weights: a.pt'', Construct ''a.pt'',
          Print ''Starting inference on source: 0'',
          Predict (predict_kwargs example_args (SrcInt 0)), Print msg_done,
          PrintDetection 1 ''smoke'' 0.5, PrintDetection 2 ''-1'' 0, Print msg_unavailable]
   \<and> snd (main world_names_fails) = Uncaught (OtherException ''KeyError'' ''names'')"
proof -
  note t = summary_exception_swallowed [OF example_parse example_world_resolve example_no_check,
      THEN conjunct1, rule_format, of example_model "SrcInt 0" "Result (Inr (Some example_boxes))" "[]"
        "Some [0 \<mapsto> ''fire'', 1 \<mapsto> ''smoke'']"]
  have h: "YOLO example_world (str_path (Path ''a.pt'')) = Inr example_model
         \<and> coerce_source (int_max_str_digits example_world) (args_source example_args) = Inr (SrcInt 0)
         \<and> predict example_model (predict_kwargs example_args (SrcInt 0))
             = Inr (ResultList [Result (Inr (Some example_boxes))])
         \<and> read_names example_model = Inr (Some [0 \<mapsto> ''fire'', 1 \<mapsto> ''smoke''])"
    using example_YOLO example_world_coerce example_predict example_read_names by blast
  have 1: "snd (main example_world) = Returned"
    using t [OF h] by blast
  have "fst (main example_world)
      = [ParseArgs, Resolve (choose_weights example_args),
         Print (''Using weights: '' @ str_path (Path ''a.pt'')), Construct (str_path (Path ''a.pt'')),
         Print (''Starting inference on source: '' @ str_source (SrcInt 0)),
         Predict (predict_kwargs example_args (SrcInt 0)), Print msg_done]
        @ [PrintDetection 1 ''smoke'' 0.5, PrintDetection 2 ''-1'' 0] @ [Print msg_unavailable]"
    using t [OF h] example_summary_body by blast
  then have 2: "fst (main example_world)
       = [ParseArgs, Resolve ''a.pt'', Print ''Using weights: a.pt'', Construct ''a.pt'',
          Print ''Starting inference on source: 0'',
          Predict (predict_kwargs example_args (SrcInt 0)), Print msg_done,
          PrintDetection 1 ''smoke'' 0.5, PrintDetection 2 ''-1'' 0, Print msg_unavailable]"
    by (simp add: example_choose example_str_path str_source_def str_int_def str_nat.simps)
  let ?m = "example_model\<lparr>names := Inl (OtherException ''KeyError'' ''names'')\<rparr>"
  have p: "parse_args world_names_fails = Parsed example_args"
    by (simp add: world_names_fails_def example_world_def)
  have r: "snd (resolve_weights_path (files world_names_fails) (choose_weights example_args))
             = Inr (Path ''a.pt'')"
    by (simp add: example_choose example_resolve world_names_fails_def example_world_def)
  have g: "YOLO world_names_fails (str_path (Path ''a.pt'')) = Inr ?m
         \<and> coerce_source (int_max_str_digits world_names_fails) (args_source example_args) = Inr (SrcInt 0)
         \<and> predict ?m (predict_kwargs example_args (SrcInt 0))
             = Inr (ResultList [Result (Inr (Some example_boxes))])
         \<and> read_names ?m = Inl (OtherException ''KeyError'' ''names'')"
    by (simp add: world_names_fails_def example_world_def example_args_def example_coerce
        example_model_def read_names_def)
  have 3: "snd (main world_names_fails) = Uncaught (OtherException ''KeyError'' ''names'')"
    using summary_exception_swallowed [OF p r example_no_check, THEN conjunct2, THEN conjunct2,
        THEN conjunct2, THEN conjunct1, rule_format, OF g]
    by simp
  show ?thesis
    using example_parse example_world_resolve example_no_check example_summary_body 1 2 3 by blast
qed

subsection \<open>The default weights\<close>

lemma run_model_weights_irrelevant:
  "run_model (w\<lparr>parse_args := q\<rparr>) (a\<lparr>args_weights := x\<rparr>) p = run_model w a p"
  by (simp add: run_model_def predict_kwargs_def cong: sum.case_cong)

text \<open>
  Claim C9. Without \<^verbatim>\<open>--weights\<close>, and with \<^verbatim>\<open>--weights\<close> given as the empty string, the spec
  that is resolved is \<^verbatim>\<open>DEFAULT_WEIGHTS\<close>, and the two runs are the same.
\<close>

theorem empty_weights_uses_default:
  "choose_weights (a\<lparr>args_weights := None\<rparr>) = DEFAULT_WEIGHTS
   \<and> choose_weights (a\<lparr>args_weights := Some ''''\<rparr>) = DEFAULT_WEIGHTS
   \<and> main (w\<lparr>parse_args := Parsed (a\<lparr>args_weights := Some ''''\<rparr>)\<rparr>)
       = main (w\<lparr>parse_args := Parsed (a\<lparr>args_weights := None\<rparr>)\<rparr>)
   \<and> take 2 (fst (main (w\<lparr>parse_args := Parsed (a\<lparr>args_weights := None\<rparr>)\<rparr>)))
       = [ParseArgs, Resolve DEFAULT_WEIGHTS]"
proof -
  have 1: "choose_weights (a\<lparr>args_weights := None\<rparr>) = DEFAULT_WEIGHTS"
    and 2: "choose_weights (a\<lparr>args_weights := Some ''''\<rparr>) = DEFAULT_WEIGHTS"
    by (simp_all add: choose_weights_def)
  have 3: "main (w\<lparr>parse_args := Parsed (a\<lparr>args_weights := Some ''''\<rparr>)\<rparr>)
       = main (w\<lparr>parse_args := Parsed (a\<lparr>args_weights := None\<rparr>)\<rparr>)"
    by (simp add: main_def Let_def 1 2 run_model_weights_irrelevant cong: sum.case_cong if_cong)
  have p: "parse_args (w\<lparr>parse_args := Parsed (a\<lparr>args_weights := None\<rparr>)\<rparr>)
             = Parsed (a\<lparr>args_weights := None\<rparr>)"
    by simp
  have 4: "take 2 (fst (main (w\<lparr>parse_args := Parsed (a\<lparr>args_weights := None\<rparr>)\<rparr>)))
       = [ParseArgs, Resolve DEFAULT_WEIGHTS]"
    using main_shapes [OF p]
    by (elim disjE exE conjE) (simp_all add: 1)
  show ?thesis
    using 1 2 3 4 by blast
qed

end
